theory Spec2Isabelle
  imports Complex_Main
begin

section \<open>Star positions on the unit sphere\<close>

text \<open>
  The module \<^verbatim>\<open>starscape.py\<close> draws its random numbers from Python's module-level
  generator. Its algorithm is not part of the repository, so it is a parameter here:
  \<open>rnd\<close> maps a generator state to the next 53-bit integer and the following state, and
  \<open>seed\<close> maps the integer given to \<^verbatim>\<open>random.seed\<close> to a generator state.
  \<^verbatim>\<open>random.random()\<close> returns that 53-bit integer divided by \<open>2 ^ 53\<close>, a number of
  the half-open interval from 0 to 1. Floating-point numbers are modelled as reals.
\<close>

datatype error =
  Exception string | ValueError | AttributeError | TypeError | IndexError | KeyError
  | ReferenceError

type_synonym vertex = "real \<times> real \<times> real"

definition py_random :: "('g \<Rightarrow> nat \<times> 'g) \<Rightarrow> 'g \<Rightarrow> real \<times> 'g" where
  "py_random rnd g = (case rnd g of (k, g') \<Rightarrow> (real (k mod 2 ^ 53) / 2 ^ 53, g'))"

text \<open>\<^verbatim>\<open>math.asin\<close> raises \<^verbatim>\<open>ValueError\<close> outside the interval from -1 to 1.\<close>

definition py_asin :: "real \<Rightarrow> error + real" where
  "py_asin x = (if -1 \<le> x \<and> x \<le> 1 then Inr (arcsin x) else Inl ValueError)"

text \<open>
  Python's \<^verbatim>\<open>round\<close> with one argument rounds to the nearest integer and a tie to the
  even neighbour.
\<close>

definition py_round :: "real \<Rightarrow> int" where
  "py_round x =
     (let f = \<lfloor>x\<rfloor>; d = x - of_int f
      in if d < 1 / 2 then f
         else if 1 / 2 < d then f + 1
         else if even f then f else f + 1)"

definition random_spherical_coordinates ::
  "('g \<Rightarrow> nat \<times> 'g) \<Rightarrow> 'g \<Rightarrow> (error + (real \<times> real)) \<times> 'g" where
  "random_spherical_coordinates rnd g =
     (case py_random rnd g of (u1, g1) \<Rightarrow>
        let phi = u1 * 2 * pi in
        (case py_random rnd g1 of (u2, g2) \<Rightarrow>
           (case py_asin (2 * u2 - 1) of
              Inl e \<Rightarrow> (Inl e, g2)
            | Inr theta \<Rightarrow> (Inr (phi, theta), g2))))"

definition spherical_to_cartesian_coordinates :: "real \<Rightarrow> real \<Rightarrow> real \<Rightarrow> vertex" where
  "spherical_to_cartesian_coordinates radius phi theta =
     (let x = radius * cos phi * cos theta;
          y = radius * sin phi * cos theta;
          z = radius * sin theta
      in (x, y, z))"

text \<open>
  The loop of \<^verbatim>\<open>generate_starscape\<close> that fills \<^verbatim>\<open>vertices\<close>: \<open>n\<close> iterations are left,
  \<open>vs\<close> is the list built so far.
\<close>

fun star_loop ::
  "('g \<Rightarrow> nat \<times> 'g) \<Rightarrow> bool \<Rightarrow> nat \<Rightarrow> vertex list \<Rightarrow> 'g \<Rightarrow> (error + vertex list) \<times> 'g" where
  "star_loop rnd hemisphere 0 vs g = (Inr vs, g)"
| "star_loop rnd hemisphere (Suc n) vs g =
     (case random_spherical_coordinates rnd g of
        (Inl e, g') \<Rightarrow> (Inl e, g')
      | (Inr (phi, theta), g') \<Rightarrow>
          (case spherical_to_cartesian_coordinates 1 phi theta of (x, y, z) \<Rightarrow>
             let z' = (if hemisphere then \<bar>z\<bar> else z)
             in star_loop rnd hemisphere n (vs @ [(x, y, z')]) g'))"

text \<open>
  Lines 103 to 116 of \<^verbatim>\<open>generate_starscape\<close>: seed the generator, compute the count and
  run the loop. \<^verbatim>\<open>random.seed\<close> replaces the state \<open>g0\<close> the generator was in.
  \<^verbatim>\<open>range\<close> of a negative count is empty.
\<close>

definition star_count :: "real \<Rightarrow> bool \<Rightarrow> nat" where
  "star_count star_density hemisphere =
     (let N = 1000 * star_density;
          N' = (if hemisphere then N / 2 else N)
      in nat (py_round N'))"

definition star_positions ::
  "('g \<Rightarrow> nat \<times> 'g) \<Rightarrow> (int \<Rightarrow> 'g) \<Rightarrow> 'g \<Rightarrow> int \<Rightarrow> real \<Rightarrow> bool \<Rightarrow>
     (error + vertex list) \<times> 'g" where
  "star_positions rnd seed g0 random_seed star_density hemisphere =
     (let g = seed random_seed
      in star_loop rnd hemisphere (star_count star_density hemisphere) [] g)"

text \<open>
  What the specification says of the point sequence, in its own words: one stream of
  draws, started at the seed; point \<open>i\<close> is made from draws \<open>2 * i\<close> and \<open>2 * i + 1\<close>.
\<close>

definition stream_state :: "('g \<Rightarrow> nat \<times> 'g) \<Rightarrow> 'g \<Rightarrow> nat \<Rightarrow> 'g" where
  "stream_state rnd g k = ((\<lambda>h. snd (rnd h)) ^^ k) g"

definition stream_draw :: "('g \<Rightarrow> nat \<times> 'g) \<Rightarrow> 'g \<Rightarrow> nat \<Rightarrow> real" where
  "stream_draw rnd g k = fst (py_random rnd (stream_state rnd g k))"

definition spec_point :: "bool \<Rightarrow> real \<Rightarrow> real \<Rightarrow> vertex" where
  "spec_point hemisphere u1 u2 =
     (let phi = u1 * 2 * pi; theta = arcsin (2 * u2 - 1);
          z = sin theta
      in (cos phi * cos theta, sin phi * cos theta, if hemisphere then \<bar>z\<bar> else z))"

definition spec_points :: "('g \<Rightarrow> nat \<times> 'g) \<Rightarrow> 'g \<Rightarrow> bool \<Rightarrow> nat \<Rightarrow> vertex list" where
  "spec_points rnd g hemisphere n =
     map (\<lambda>i. spec_point hemisphere (stream_draw rnd g (2 * i)) (stream_draw rnd g (2 * i + 1)))
       [0..<n]"

definition on_unit_sphere :: "vertex \<Rightarrow> bool" where
  "on_unit_sphere p = (case p of (x, y, z) \<Rightarrow> x\<^sup>2 + y\<^sup>2 + z\<^sup>2 = 1)"


section \<open>Node trees\<close>

text \<open>
  The node trees live in the host application. What \<^verbatim>\<open>starscape.py\<close> does to them is
  modelled on this data: a tree holds its nodes in creation order (a node is referred to
  by its position), its links and the sockets of its interface. A node has its input and
  its output sockets, each a list of names. The script addresses a socket by position
  (\<^verbatim>\<open>inputs[0]\<close>) or by name (\<^verbatim>\<open>inputs["Random"]\<close>); a link joins the sockets found.
\<close>

datatype sock = Idx nat | Nm string

record link =
  to_node :: nat
  to_socket :: nat
  from_node :: nat
  from_socket :: nat

record iface_socket =
  socket_name :: string
  in_out :: string
  socket_type :: string

record node =
  bl_idname :: string
  operation :: string
  location :: "int \<times> int"
  inputs :: "string list"
  outputs :: "string list"
  default_values :: "real list"
  group_of :: "nat option"
  hidden_outputs :: "nat list"

record node_tree =
  nodes :: "node list"
  links :: "link list"
  interface :: "iface_socket list"

definition empty_tree :: node_tree where
  "empty_tree = \<lparr>nodes = [], links = [], interface = []\<rparr>"

fun index_of :: "('a \<Rightarrow> bool) \<Rightarrow> 'a list \<Rightarrow> nat option" where
  "index_of P [] = None"
| "index_of P (x # xs) = (if P x then Some 0 else map_option Suc (index_of P xs))"

text \<open>
  The sockets the host gives a node of each type the script creates, inputs first. The
  sockets of a group-input and a group-output node are those of the tree's interface, and
  the sockets of a group node those of the interface of its group.
\<close>

definition host_sockets :: "string \<Rightarrow> string list \<times> string list" where
  "host_sockets node_type =
     (if node_type = ''ShaderNodeMath'' then
        ([''Value'', ''Value'', ''Value''], [''Value''])
      else if node_type = ''ShaderNodeOutputMaterial'' then
        ([''Surface'', ''Volume'', ''Displacement'', ''Thickness''], [])
      else if node_type = ''ShaderNodeEmission'' then
        ([''Color'', ''Strength'', ''Weight''], [''Emission''])
      else if node_type = ''ShaderNodeLightPath'' then
        ([], [''Is Camera Ray'', ''Is Shadow Ray'', ''Is Diffuse Ray'', ''Is Glossy Ray'',
              ''Is Singular Ray'', ''Is Reflection Ray'', ''Is Transmission Ray'',
              ''Ray Length'', ''Ray Depth'', ''Diffuse Depth'', ''Glossy Depth'',
              ''Transparent Depth'', ''Transmission Depth''])
      else if node_type = ''ShaderNodeObjectInfo'' then
        ([], [''Location'', ''Color'', ''Alpha'', ''Object Index'', ''Material Index'',
              ''Random''])
      else if node_type = ''ShaderNodeBlackbody'' then
        ([''Temperature''], [''Color''])
      else ([], []))"

definition socket_names :: "string \<Rightarrow> iface_socket list \<Rightarrow> string list" where
  "socket_names io iface = map socket_name (filter (\<lambda>s. in_out s = io) iface)"

text \<open>
  \<^verbatim>\<open>nodes.new(node_type)\<close>: the host appends a node of that type. A math node starts
  with operation \<^verbatim>\<open>ADD\<close> and the value 0.5 in each of its three inputs.
\<close>

definition nodes_new :: "string \<Rightarrow> node_tree \<Rightarrow> nat \<times> node_tree" where
  "nodes_new node_type t =
     (length (nodes t),
      t\<lparr>nodes := nodes t @
         [\<lparr>bl_idname = node_type,
           operation = (if node_type = ''ShaderNodeMath'' then ''ADD'' else []),
           location = (0, 0),
           inputs = (if node_type = ''NodeGroupOutput'' then socket_names ''OUTPUT'' (interface t)
                     else fst (host_sockets node_type)),
           outputs = (if node_type = ''NodeGroupInput'' then socket_names ''INPUT'' (interface t)
                      else snd (host_sockets node_type)),
           default_values = (if node_type = ''ShaderNodeMath'' then [1 / 2, 1 / 2, 1 / 2] else []),
           group_of = None,
           hidden_outputs = []\<rparr>]\<rparr>)"

definition update_node :: "nat \<Rightarrow> (node \<Rightarrow> node) \<Rightarrow> node_tree \<Rightarrow> node_tree" where
  "update_node k f t = t\<lparr>nodes := (nodes t)[k := f (nodes t ! k)]\<rparr>"

text \<open>
  \<^verbatim>\<open>interface.new_socket(name, in_out, socket_type)\<close>: the host adds the socket to the
  interface, and with it an output to every group-input node of the tree, or an input to
  every group-output node.
\<close>

definition new_socket :: "string \<Rightarrow> string \<Rightarrow> string \<Rightarrow> node_tree \<Rightarrow> node_tree" where
  "new_socket name io ty t =
     t\<lparr>interface := interface t @ [\<lparr>socket_name = name, in_out = io, socket_type = ty\<rparr>],
       nodes := map (\<lambda>n.
         if bl_idname n = ''NodeGroupInput'' \<and> io = ''INPUT'' then n\<lparr>outputs := outputs n @ [name]\<rparr>
         else if bl_idname n = ''NodeGroupOutput'' \<and> io = ''OUTPUT'' then
           n\<lparr>inputs := inputs n @ [name]\<rparr>
         else n) (nodes t)\<rparr>"

text \<open>
  \<^verbatim>\<open>links.new(input, output)\<close>: the host adds the link; an input socket holds one link,
  so a link that was in that input is removed.
\<close>

definition links_new :: "link \<Rightarrow> node_tree \<Rightarrow> node_tree" where
  "links_new l t =
     t\<lparr>links := filter (\<lambda>k. \<not> (to_node k = to_node l \<and> to_socket k = to_socket l)) (links t) @ [l]\<rparr>"

text \<open>\<^verbatim>\<open>nodes.clear()\<close> removes the nodes, and with them the links between them.\<close>

definition nodes_clear :: "node_tree \<Rightarrow> node_tree" where
  "nodes_clear t = t\<lparr>nodes := [], links := []\<rparr>"

text \<open>
  A step on a state that can raise: the state after the step, and either the exception
  or the value returned.
\<close>

definition and_then ::
  "(error + 'a) \<times> 's \<Rightarrow> ('a \<Rightarrow> 's \<Rightarrow> (error + 'b) \<times> 's) \<Rightarrow> (error + 'b) \<times> 's" where
  "and_then r f = (case r of (Inl e, s) \<Rightarrow> (Inl e, s) | (Inr a, s) \<Rightarrow> f a s)"

definition make_node :: "string \<Rightarrow> int \<Rightarrow> int \<Rightarrow> node_tree \<Rightarrow> (error + nat) \<times> node_tree" where
  "make_node node_type x y t =
     (case nodes_new node_type t of (node, t1) \<Rightarrow>
        (Inr node, update_node node (\<lambda>n. n\<lparr>location := (x, y)\<rparr>) t1))"

text \<open>
  The group handed to \<^verbatim>\<open>make_group_node\<close> is its position in the registry together with
  its interface, from which the host makes the sockets of the node when
  \<^verbatim>\<open>node.node_tree\<close> is assigned.
\<close>

definition make_group_node ::
  "nat \<Rightarrow> iface_socket list \<Rightarrow> int \<Rightarrow> int \<Rightarrow> node_tree \<Rightarrow> (error + nat) \<times> node_tree" where
  "make_group_node grp iface x y t =
     (case nodes_new ''ShaderNodeGroup'' t of (node, t1) \<Rightarrow>
        (Inr node,
         update_node node (\<lambda>n. n\<lparr>location := (x, y)\<rparr>)
           (update_node node
              (\<lambda>n. n\<lparr>group_of := Some grp, inputs := socket_names ''INPUT'' iface,
                      outputs := socket_names ''OUTPUT'' iface\<rparr>) t1)))"

definition make_math_node ::
  "string \<Rightarrow> int \<Rightarrow> int \<Rightarrow> real \<Rightarrow> real \<Rightarrow> node_tree \<Rightarrow> (error + nat) \<times> node_tree" where
  "make_math_node function x y default_1 default_2 t =
     (case nodes_new ''ShaderNodeMath'' t of (node, t1) \<Rightarrow>
        (Inr node,
         update_node node (\<lambda>n. n\<lparr>default_values := (default_values n)[1 := default_2]\<rparr>)
           (update_node node (\<lambda>n. n\<lparr>default_values := (default_values n)[0 := default_1]\<rparr>)
             (update_node node (\<lambda>n. n\<lparr>location := (x, y)\<rparr>)
               (update_node node (\<lambda>n. n\<lparr>operation := function\<rparr>) t1)))))"

text \<open>
  \<^verbatim>\<open>node.inputs[key]\<close> and \<^verbatim>\<open>node.outputs[key]\<close>: the position of the socket in the
  list of names. A position that is out of range raises \<^verbatim>\<open>IndexError\<close>, a name that no
  socket has raises \<^verbatim>\<open>KeyError\<close>.
\<close>

definition socket_lookup :: "string list \<Rightarrow> sock \<Rightarrow> error + nat" where
  "socket_lookup names key =
     (case key of
        Idx i \<Rightarrow> if i < length names then Inr i else Inl IndexError
      | Nm a \<Rightarrow> (case index_of (\<lambda>b. b = a) names of Some i \<Rightarrow> Inr i | None \<Rightarrow> Inl KeyError))"

text \<open>
  The arguments of \<^verbatim>\<open>connect_nodes\<close> after the tree: nodes and socket keys in one list.
  \<^verbatim>\<open>args[k]\<close> is \<open>args ! k\<close> where \<open>k\<close> is in range; the loop reads positions up to
  \<open>3 * n\<close>, which is below the length once the arity test has passed. Line 70 evaluates
  \<^verbatim>\<open>node_b.inputs[input]\<close> and then \<^verbatim>\<open>node_a.outputs[output]\<close>: a position that holds a
  key where a node is read has no such attribute, a node where a key is read is no key,
  a node that is not in the tree is a reference to a removed node, and a key that finds
  no socket raises as \<open>socket_lookup\<close> says.
\<close>

datatype arg = ANode nat | ASock sock

fun connect_loop :: "arg list \<Rightarrow> nat list \<Rightarrow> node_tree \<Rightarrow> (error + unit) \<times> node_tree" where
  "connect_loop args [] t = (Inr (), t)"
| "connect_loop args (i # is) t =
     (if length args \<le> 3 * (i + 1) then (Inl IndexError, t)
      else
        let node_a = args ! (3 * i);
            node_b = args ! (3 * (i + 1));
            output = args ! (3 * i + 1);
            input = args ! (3 * i + 2)
        in (case node_b of
              ASock _ \<Rightarrow> (Inl AttributeError, t)
            | ANode b \<Rightarrow>
               if length (nodes t) \<le> b then (Inl ReferenceError, t)
               else
               (case input of
                  ANode _ \<Rightarrow> (Inl TypeError, t)
                | ASock inp \<Rightarrow>
                   (case socket_lookup (inputs (nodes t ! b)) inp of
                      Inl e \<Rightarrow> (Inl e, t)
                    | Inr j \<Rightarrow>
                       (case node_a of
                          ASock _ \<Rightarrow> (Inl AttributeError, t)
                        | ANode a \<Rightarrow>
                           if length (nodes t) \<le> a then (Inl ReferenceError, t)
                           else
                           (case output of
                              ANode _ \<Rightarrow> (Inl TypeError, t)
                            | ASock out \<Rightarrow>
                               (case socket_lookup (outputs (nodes t ! a)) out of
                                  Inl e \<Rightarrow> (Inl e, t)
                                | Inr k \<Rightarrow>
                                    connect_loop args is
                                      (links_new \<lparr>to_node = b, to_socket = j,
                                                  from_node = a, from_socket = k\<rparr> t))))))))"

definition connect_nodes :: "arg list \<Rightarrow> node_tree \<Rightarrow> (error + unit) \<times> node_tree" where
  "connect_nodes args t =
     (if int (length args) < 4 \<or> (int (length args) - 4) mod 3 \<noteq> 0
      then (Inl (Exception ''Invalid number of arguments!''), t)
      else
        let n = nat ((int (length args) - 1) div 3)
        in connect_loop args [0..<n] t)"

fun new_sockets :: "string \<Rightarrow> string list \<Rightarrow> nat list \<Rightarrow> node_tree \<Rightarrow> node_tree" where
  "new_sockets io sockets [] t = t"
| "new_sockets io sockets (i # is) t =
     new_sockets io sockets is
       (new_socket (sockets ! (2 * i + 1)) io (''NodeSocket'' @ sockets ! (2 * i)) t)"

definition make_group_inputs ::
  "int \<Rightarrow> int \<Rightarrow> string list \<Rightarrow> node_tree \<Rightarrow> (error + nat) \<times> node_tree" where
  "make_group_inputs x y sockets t =
     (if length sockets mod 2 \<noteq> 0 then (Inl (Exception ''Invalid number of arguments!''), t)
      else
        (case nodes_new ''NodeGroupInput'' t of (node, t1) \<Rightarrow>
           (Inr node,
            new_sockets ''INPUT'' sockets [0..<length sockets div 2]
              (update_node node (\<lambda>n. n\<lparr>location := (x, y)\<rparr>) t1))))"

definition make_group_outputs ::
  "int \<Rightarrow> int \<Rightarrow> string list \<Rightarrow> node_tree \<Rightarrow> (error + nat) \<times> node_tree" where
  "make_group_outputs x y sockets t =
     (if length sockets mod 2 \<noteq> 0 then (Inl (Exception ''Invalid number of arguments!''), t)
      else
        (case nodes_new ''NodeGroupOutput'' t of (node, t1) \<Rightarrow>
           (Inr node,
            new_sockets ''OUTPUT'' sockets [0..<length sockets div 2]
              (update_node node (\<lambda>n. n\<lparr>location := (x, y)\<rparr>) t1))))"

text \<open>
  \<^verbatim>\<open>hide_node_outputs\<close> walks the output sockets of a node. An output is linked when a
  link starts at it.
\<close>

definition is_linked :: "node_tree \<Rightarrow> nat \<Rightarrow> nat \<Rightarrow> bool" where
  "is_linked t node j = list_ex (\<lambda>l. from_node l = node \<and> from_socket l = j) (links t)"

definition hide_node_outputs :: "nat \<Rightarrow> node_tree \<Rightarrow> (error + unit) \<times> node_tree" where
  "hide_node_outputs node t =
     (Inr (),
      update_node node
        (\<lambda>n. n\<lparr>hidden_outputs :=
             remdups (hidden_outputs n @
               filter (\<lambda>j. \<not> is_linked t node j) [0..<length (outputs n)])\<rparr>) t)"

text \<open>
  The chain a call of \<^verbatim>\<open>connect_nodes\<close> describes, in the specification's words: the
  arguments alternate node, output key, input key, and link \<open>i\<close> goes from the output
  \<open>args[3 * i + 1]\<close> of the node \<open>args[3 * i]\<close> to the input \<open>args[3 * i + 2]\<close> of the node
  \<open>args[3 * i + 3]\<close>. The link is there when both are nodes of the tree and each key
  finds a socket of its node.
\<close>

definition resolve_link :: "node_tree \<Rightarrow> arg list \<Rightarrow> nat \<Rightarrow> link option" where
  "resolve_link t args i =
     (case args ! (3 * i) of
        ASock _ \<Rightarrow> None
      | ANode a \<Rightarrow>
         (case args ! (3 * i + 1) of
            ANode _ \<Rightarrow> None
          | ASock out \<Rightarrow>
             (case args ! (3 * i + 2) of
                ANode _ \<Rightarrow> None
              | ASock inp \<Rightarrow>
                 (case args ! (3 * i + 3) of
                    ASock _ \<Rightarrow> None
                  | ANode b \<Rightarrow>
                     if a < length (nodes t) \<and> b < length (nodes t) then
                       (case socket_lookup (inputs (nodes t ! b)) inp of
                          Inl _ \<Rightarrow> None
                        | Inr j \<Rightarrow>
                           (case socket_lookup (outputs (nodes t ! a)) out of
                              Inl _ \<Rightarrow> None
                            | Inr k \<Rightarrow>
                                Some \<lparr>to_node = b, to_socket = j,
                                      from_node = a, from_socket = k\<rparr>))
                     else None))))"

definition chain_links :: "node_tree \<Rightarrow> arg list \<Rightarrow> link option list" where
  "chain_links t args = map (resolve_link t args) [0..<(length args - 1) div 3]"

subsection \<open>The three node groups\<close>

text \<open>
  Each group is built by one run of statements on the tree of the new group
  (lines 164 to 183, 189 to 200 and 220 to 233 of \<^verbatim>\<open>generate_starscape\<close>).
\<close>

definition random_intensity_body :: "node_tree \<Rightarrow> (error + unit) \<times> node_tree" where
  "random_intensity_body grp =
     and_then (make_group_inputs 0 0 [''Float'', ''Random''] grp) (\<lambda>group_inputs grp.
     and_then (make_group_outputs 1200 0 [''Float'', ''Intensity''] grp) (\<lambda>group_outputs grp.
     and_then (make_math_node ''MULTIPLY'' 200 0 (1 / 2) 9100 grp) (\<lambda>math_inp_fact grp.
     and_then (make_math_node ''DIVIDE'' 400 0 (1 / 2) (356 / 100) grp) (\<lambda>math_pre_div grp.
     and_then (make_math_node ''LOGARITHM'' 600 0 (1 / 2) (exp 1) grp) (\<lambda>math_mag_log grp.
     and_then (make_math_node ''DIVIDE'' 800 0 (1 / 2) (- (121 / 100)) grp) (\<lambda>math_mag_div grp.
     and_then (make_math_node ''POWER'' 1000 0 (2512 / 1000) (1 / 2) grp) (\<lambda>math_mag_power grp.
     connect_nodes
       [ANode group_inputs, ASock (Nm ''Random''),
        ASock (Idx 0), ANode math_inp_fact, ASock (Idx 0),
        ASock (Idx 0), ANode math_pre_div, ASock (Idx 0),
        ASock (Idx 0), ANode math_mag_log, ASock (Idx 0),
        ASock (Idx 0), ANode math_mag_div, ASock (Idx 0),
        ASock (Idx 1), ANode math_mag_power, ASock (Idx 0),
        ASock (Nm ''Intensity''), ANode group_outputs] grp)))))))"

definition random_splitter_body :: "node_tree \<Rightarrow> (error + unit) \<times> node_tree" where
  "random_splitter_body grp =
     and_then (make_group_inputs 0 0 [''Float'', ''Random''] grp) (\<lambda>group_inputs grp.
     and_then (make_group_outputs 600 0 [''Float'', ''Random 1'', ''Float'', ''Random 2''] grp)
       (\<lambda>group_outputs grp.
     and_then (make_math_node ''MULTIPLY'' 200 (-100) (1 / 2) 1000 grp) (\<lambda>math_rsplit_mult grp.
     and_then (make_math_node ''MODULO'' 400 (-100) (1 / 2) 1 grp) (\<lambda>math_rsplit_mod grp.
     and_then (connect_nodes
       [ANode group_inputs, ASock (Nm ''Random''), ASock (Nm ''Random 1''), ANode group_outputs]
       grp) (\<lambda>_ grp.
     connect_nodes
       [ANode group_inputs, ASock (Nm ''Random''),
        ASock (Idx 0), ANode math_rsplit_mult, ASock (Idx 0),
        ASock (Idx 0), ANode math_rsplit_mod, ASock (Idx 0),
        ASock (Nm ''Random 2''), ANode group_outputs] grp)))))"

definition random_star_color_body :: "node_tree \<Rightarrow> (error + unit) \<times> node_tree" where
  "random_star_color_body grp =
     and_then (make_group_inputs 0 0 [''Float'', ''Random''] grp) (\<lambda>group_inputs grp.
     and_then (make_group_outputs 800 0 [''Color'', ''Color''] grp) (\<lambda>group_outputs grp.
     and_then (make_math_node ''MULTIPLY'' 200 0 (1 / 2) 17000 grp) (\<lambda>math_kelvin_width grp.
     and_then (make_math_node ''ADD'' 400 0 (1 / 2) 3000 grp) (\<lambda>math_kelvin_offset grp.
     and_then (make_node ''ShaderNodeBlackbody'' 600 0 grp) (\<lambda>blackbody grp.
     connect_nodes
       [ANode group_inputs, ASock (Nm ''Random''),
        ASock (Idx 0), ANode math_kelvin_width, ASock (Idx 0),
        ASock (Idx 0), ANode math_kelvin_offset, ASock (Idx 0),
        ASock (Nm ''Temperature''), ANode blackbody, ASock (Nm ''Color''),
        ASock (Nm ''Color''), ANode group_outputs] grp)))))"

subsection \<open>What a group computes\<close>

text \<open>
  The host evaluates a tree at render time. Its math node computes, on the values of its
  first two inputs: the product, the sum, the quotient (0 when the divisor is 0), the
  logarithm of the first to the base of the second (0 unless both are positive), the
  power (for a positive base), and the remainder of the truncated division (0 when the
  divisor is 0). An input takes the value of the output linked to it, or its default
  value when no link ends in it. The output of the group-input node named \<open>a\<close> carries
  the value given for the group's input \<open>a\<close>.
\<close>

definition math_value :: "string \<Rightarrow> real \<Rightarrow> real \<Rightarrow> real option" where
  "math_value op a b =
     (if op = ''MULTIPLY'' then Some (a * b)
      else if op = ''ADD'' then Some (a + b)
      else if op = ''DIVIDE'' then Some (if b = 0 then 0 else a / b)
      else if op = ''LOGARITHM'' then Some (if 0 < a \<and> 0 < b then ln a / ln b else 0)
      else if op = ''POWER'' then (if 0 < a then Some (a powr b) else None)
      else if op = ''MODULO'' then
        Some (if b = 0 then 0
              else a - b * of_int (if 0 \<le> a / b then \<lfloor>a / b\<rfloor> else \<lceil>a / b\<rceil>))
      else None)"

fun eval_output :: "nat \<Rightarrow> node_tree \<Rightarrow> (string \<Rightarrow> real) \<Rightarrow> nat \<Rightarrow> nat \<Rightarrow> real option" where
  "eval_output 0 t env k out = None"
| "eval_output (Suc fuel) t env k out =
     (if length (nodes t) \<le> k then None
      else
        let n = nodes t ! k;
            input_value = (\<lambda>i.
              (case find (\<lambda>l. to_node l = k \<and> to_socket l = i) (rev (links t)) of
                 None \<Rightarrow> (if i < length (default_values n) then Some (default_values n ! i) else None)
               | Some l \<Rightarrow> eval_output fuel t env (from_node l) (from_socket l)))
        in if bl_idname n = ''NodeGroupInput'' then
             (if out < length (outputs n) then Some (env (outputs n ! out)) else None)
           else if bl_idname n = ''ShaderNodeMath'' \<and> out = 0 then
             (case input_value 0 of
                None \<Rightarrow> None
              | Some a \<Rightarrow>
                 (case input_value 1 of
                    None \<Rightarrow> None
                  | Some b \<Rightarrow> math_value (operation n) a b))
           else None)"

text \<open>The value that arrives at the output \<open>a\<close> of the group: what is linked to it.\<close>

definition eval_group :: "nat \<Rightarrow> node_tree \<Rightarrow> (string \<Rightarrow> real) \<Rightarrow> string \<Rightarrow> real option" where
  "eval_group fuel t env a =
     (case index_of (\<lambda>n. bl_idname n = ''NodeGroupOutput'') (nodes t) of
        None \<Rightarrow> None
      | Some k \<Rightarrow>
         (case index_of (\<lambda>b. b = a) (inputs (nodes t ! k)) of
            None \<Rightarrow> None
          | Some j \<Rightarrow>
             (case find (\<lambda>l. to_node l = k \<and> to_socket l = j) (rev (links t)) of
                None \<Rightarrow> None
              | Some l \<Rightarrow> eval_output fuel t env (from_node l) (from_socket l))))"

text \<open>
  The specification's formula for the intensity of a star whose random value is \<open>r\<close>:
  \<open>2.512 ^ (ln ((r * 9100) / 3.56) / -1.21)\<close>.
\<close>

definition intensity_formula :: "real \<Rightarrow> real" where
  "intensity_formula r = (2512 / 1000) powr (ln ((r * 9100) / (356 / 100)) / (- (121 / 100)))"

section \<open>The host's data and the generation call\<close>

text \<open>
  The script works on the host's registries (\<^verbatim>\<open>bpy.data\<close>) and on the state of
  Python's random module. A registry holds its entries in creation order; the script
  holds an entry by reference, here its position, and finds one by name with
  \<^verbatim>\<open>registry[name]\<close>. An object refers to its mesh; an object with other data (an
  empty, a camera, a light) refers to none.
\<close>

record props =
  random_seed :: int
  star_density :: real
  hemisphere :: bool
  star_intensity :: real
  camera_lock :: bool
  clear_world_bg :: bool

record mesh =
  mesh_name :: string
  vertices :: "vertex list"
  edges :: "(nat \<times> nat) list"
  polygons :: "nat list list"

record constraint =
  constraint_type :: string
  constraint_target :: "string option"

record driver_target =
  id_type :: string
  target_id :: string
  data_path :: string

record driver_variable =
  variable_name :: string
  variable_type :: string
  targets :: "driver_target list"

record fcurve =
  fcurve_path :: string
  array_index :: nat
  variables :: "driver_variable list"
  expression :: string

record object =
  object_name :: string
  data :: "nat option"
  constraints :: "constraint list"
  drivers :: "fcurve list"
  parent :: "nat option"
  instance_type :: string
  use_instance_vertices_rotation :: bool
  show_instancer_for_render :: bool
  hide_viewport :: bool
  active_material :: "nat option"

record material =
  material_name :: string
  use_nodes :: bool
  material_tree :: node_tree

record node_group =
  group_name :: string
  group_kind :: string
  group_tree :: node_tree

record world =
  world_use_nodes :: bool
  world_color :: "real \<times> real \<times> real"

record camera =
  camera_name :: string
  camera_data :: string
  camera_type :: string

record 'g session =
  scene_name :: string
  scene_camera :: "camera option"
  context_world :: "world option"
  meshes :: "mesh list"
  objects :: "object list"
  collection_objects :: "nat list"
  materials :: "material list"
  node_groups :: "node_group list"
  random_state :: 'g

subsection \<open>Names of new entries\<close>

text \<open>
  The host keeps the names of a registry distinct: \<^verbatim>\<open>new(name)\<close> gives the entry the
  name asked for when it is free, and otherwise the name followed by a dot and the first
  free number, written with at least three digits.
\<close>

definition digit_char :: "nat \<Rightarrow> char" where
  "digit_char d = char_of (48 + d)"

function dec :: "nat \<Rightarrow> string" where
  "dec n = (if n < 10 then [digit_char n] else dec (n div 10) @ [digit_char (n mod 10)])"
  by pat_completeness auto
termination
  by (relation "measure id") auto

definition numbered :: "string \<Rightarrow> nat \<Rightarrow> string" where
  "numbered base k = base @ ''.'' @ replicate (3 - length (dec k)) (CHR ''0'') @ dec k"

definition unique_name :: "string list \<Rightarrow> string \<Rightarrow> string" where
  "unique_name used base =
     (if base \<notin> set used then base
      else (case find (\<lambda>c. c \<notin> set used) (map (numbered base) [1..<length used + 2]) of
              Some c \<Rightarrow> c
            | None \<Rightarrow> base))"

subsection \<open>Meshes and objects\<close>

definition meshes_new :: "string \<Rightarrow> 'g session \<Rightarrow> nat \<times> 'g session" where
  "meshes_new name s =
     (length (meshes s),
      s\<lparr>meshes := meshes s @
         [\<lparr>mesh_name = unique_name (map mesh_name (meshes s)) name,
           vertices = [], edges = [], polygons = []\<rparr>]\<rparr>)"

definition clear_geometry :: "mesh \<Rightarrow> mesh" where
  "clear_geometry m = m\<lparr>vertices := [], edges := [], polygons := []\<rparr>"

text \<open>\<^verbatim>\<open>objects.new(name, mesh)\<close>: a new object has the host's default settings.\<close>

definition new_object :: "string \<Rightarrow> nat \<Rightarrow> object" where
  "new_object name m =
     \<lparr>object_name = name, data = Some m, constraints = [], drivers = [], parent = None,
      instance_type = ''NONE'', use_instance_vertices_rotation = False,
      show_instancer_for_render = True, hide_viewport = False, active_material = None\<rparr>"

definition objects_new :: "string \<Rightarrow> nat \<Rightarrow> 'g session \<Rightarrow> nat \<times> 'g session" where
  "objects_new name m s =
     (length (objects s),
      s\<lparr>objects := objects s @ [new_object (unique_name (map object_name (objects s)) name) m]\<rparr>)"

definition update_object :: "nat \<Rightarrow> (object \<Rightarrow> object) \<Rightarrow> 'g session \<Rightarrow> 'g session" where
  "update_object k f s = s\<lparr>objects := (objects s)[k := f (objects s ! k)]\<rparr>"

definition create_or_reuse_mesh_object :: "string \<Rightarrow> 'g session \<Rightarrow> (error + nat) \<times> 'g session" where
  "create_or_reuse_mesh_object name s =
     (case (case index_of (\<lambda>m. mesh_name m = name @ ''_mesh'') (meshes s) of
              Some i \<Rightarrow> (i, s\<lparr>meshes := (meshes s)[i := clear_geometry (meshes s ! i)]\<rparr>)
            | None \<Rightarrow> meshes_new (name @ ''_mesh'') s) of
        (mesh, s1) \<Rightarrow>
          (case index_of (\<lambda>ob. object_name ob = name) (objects s1) of
             Some obj \<Rightarrow> (Inr obj, s1)
           | None \<Rightarrow>
              (case objects_new name mesh s1 of
                 (obj, s2) \<Rightarrow>
                   (Inr obj, s2\<lparr>collection_objects := collection_objects s2 @ [obj]\<rparr>))))"

text \<open>
  \<^verbatim>\<open>obj.data.from_pydata(vertices, edges, faces)\<close>: the host adds the geometry to the
  mesh the object refers to. An object that refers to no mesh has no such method.
\<close>

definition from_pydata ::
  "nat \<Rightarrow> vertex list \<Rightarrow> (nat \<times> nat) list \<Rightarrow> nat list list \<Rightarrow> 'g session \<Rightarrow>
     (error + unit) \<times> 'g session" where
  "from_pydata obj vs es fs s =
     (case data (objects s ! obj) of
        None \<Rightarrow> (Inl AttributeError, s)
      | Some m \<Rightarrow>
          if length (meshes s) \<le> m then (Inl AttributeError, s)
          else
            (Inr (),
             s\<lparr>meshes := (meshes s)[m := (meshes s ! m)
                \<lparr>vertices := vertices (meshes s ! m) @ vs,
                 edges := edges (meshes s ! m) @ es,
                 polygons := polygons (meshes s ! m) @ fs\<rparr>]\<rparr>))"

text \<open>Lines 103 to 121: the star positions and the object that holds them.\<close>

definition star_field_stage ::
  "('g \<Rightarrow> nat \<times> 'g) \<Rightarrow> (int \<Rightarrow> 'g) \<Rightarrow> props \<Rightarrow> 'g session \<Rightarrow> (error + nat) \<times> 'g session" where
  "star_field_stage rnd seed p s =
     (case star_positions rnd seed (random_state s) (random_seed p) (star_density p) (hemisphere p) of
        (r, g) \<Rightarrow>
          and_then (r, s\<lparr>random_state := g\<rparr>) (\<lambda>vertices s.
          and_then (create_or_reuse_mesh_object ''Starscape'' s) (\<lambda>stars_obj s.
          and_then (from_pydata stars_obj vertices [] [] s) (\<lambda>_ s. (Inr stars_obj, s)))))"

text \<open>Lines 125 to 132: the template triangle.\<close>

definition template_vertices :: "vertex list" where
  "template_vertices =
     (let s = 2 / 10000;
          q = s * sqrt 3
      in [(0, 0, 2 * s), (- q, 0, - 1 * s), (q, 0, - 1 * s)])"

definition template_stage :: "'g session \<Rightarrow> (error + nat) \<times> 'g session" where
  "template_stage s =
     and_then (create_or_reuse_mesh_object ''Star_Template'' s) (\<lambda>template_obj s.
     and_then (from_pydata template_obj template_vertices [(0, 1), (0, 2), (1, 2)] [[0, 1, 2]] s)
       (\<lambda>_ s. (Inr template_obj, s)))"


subsection \<open>The material\<close>

text \<open>
  \<^verbatim>\<open>materials.new\<close> and \<^verbatim>\<open>node_groups.new\<close> append an entry with an empty tree. The
  nodes the host puts into the tree of a material when \<^verbatim>\<open>use_nodes\<close> is switched on
  are removed by the \<^verbatim>\<open>nodes.clear()\<close> that follows, so they are left out.
\<close>

definition materials_new :: "string \<Rightarrow> 'g session \<Rightarrow> nat \<times> 'g session" where
  "materials_new name s =
     (length (materials s),
      s\<lparr>materials := materials s @
         [\<lparr>material_name = unique_name (map material_name (materials s)) name,
           use_nodes = False, material_tree = empty_tree\<rparr>]\<rparr>)"

definition node_groups_new :: "string \<Rightarrow> string \<Rightarrow> 'g session \<Rightarrow> (error + nat) \<times> 'g session" where
  "node_groups_new name kind s =
     (Inr (length (node_groups s)),
      s\<lparr>node_groups := node_groups s @
         [\<lparr>group_name = unique_name (map group_name (node_groups s)) name,
           group_kind = kind, group_tree = empty_tree\<rparr>]\<rparr>)"

definition update_material :: "nat \<Rightarrow> (material \<Rightarrow> material) \<Rightarrow> 'g session \<Rightarrow> 'g session" where
  "update_material k f s = s\<lparr>materials := (materials s)[k := f (materials s ! k)]\<rparr>"

text \<open>A run of statements on the tree of material \<open>m\<close>, and on the tree of group \<open>k\<close>.\<close>

definition on_material_tree ::
  "nat \<Rightarrow> (node_tree \<Rightarrow> (error + 'a) \<times> node_tree) \<Rightarrow> 'g session \<Rightarrow> (error + 'a) \<times> 'g session" where
  "on_material_tree m f s =
     (case f (material_tree (materials s ! m)) of
        (r, t) \<Rightarrow> (r, update_material m (\<lambda>x. x\<lparr>material_tree := t\<rparr>) s))"

definition on_group_tree ::
  "nat \<Rightarrow> (node_tree \<Rightarrow> (error + 'a) \<times> node_tree) \<Rightarrow> 'g session \<Rightarrow> (error + 'a) \<times> 'g session" where
  "on_group_tree k f s =
     (case f (group_tree (node_groups s ! k)) of
        (r, t) \<Rightarrow> (r, s\<lparr>node_groups := (node_groups s)[k := (node_groups s ! k)\<lparr>group_tree := t\<rparr>]\<rparr>))"

text \<open>Lines 137 to 160.\<close>

definition shader_nodes ::
  "props \<Rightarrow> node_tree \<Rightarrow> (error + (nat \<times> nat \<times> nat \<times> nat \<times> nat)) \<times> node_tree" where
  "shader_nodes p node_tree =
     and_then (Inr (), nodes_clear node_tree) (\<lambda>_ node_tree.
     and_then (make_node ''ShaderNodeOutputMaterial'' 0 0 node_tree) (\<lambda>material_output node_tree.
     and_then (make_node ''ShaderNodeEmission'' (-200) 0 node_tree) (\<lambda>emission node_tree.
     and_then (make_math_node ''MULTIPLY'' (-400) 0 (1 / 2) (1 / 2) node_tree)
       (\<lambda>math_lightpath node_tree.
     and_then (make_node ''ShaderNodeLightPath'' (-600) 100 node_tree) (\<lambda>light_path node_tree.
     and_then (connect_nodes
       [ANode light_path, ASock (Nm ''Is Camera Ray''), ASock (Idx 0), ANode math_lightpath]
       node_tree) (\<lambda>_ node_tree.
     and_then (make_math_node ''MULTIPLY'' (-600) 0 (1 / 2) (15 * star_intensity p) node_tree)
       (\<lambda>math_intensity node_tree.
     (Inr (material_output, emission, math_lightpath, light_path, math_intensity),
      node_tree))))))))"

text \<open>Lines 202 to 216.\<close>

definition main_chain ::
  "nat \<Rightarrow> iface_socket list \<Rightarrow> nat \<Rightarrow> nat \<Rightarrow> nat \<Rightarrow> nat \<Rightarrow> nat \<Rightarrow> nat \<Rightarrow>
     node_tree \<Rightarrow> (error + nat) \<times> node_tree" where
  "main_chain grp iface material_output emission math_lightpath light_path math_intensity
       random_magnitude node_tree =
     and_then (make_group_node grp iface (-1000) 0 node_tree) (\<lambda>random_splitter node_tree.
     and_then (make_node ''ShaderNodeObjectInfo'' (-1200) 0 node_tree) (\<lambda>geometry_input node_tree.
     and_then (connect_nodes
       [ANode geometry_input, ASock (Nm ''Random''),
        ASock (Nm ''Random''), ANode random_splitter, ASock (Nm ''Random 1''),
        ASock (Nm ''Random''), ANode random_magnitude, ASock (Nm ''Intensity''),
        ASock (Idx 0), ANode math_intensity, ASock (Idx 0),
        ASock (Idx 1), ANode math_lightpath, ASock (Idx 0),
        ASock (Nm ''Strength''), ANode emission, ASock (Nm ''Emission''),
        ASock (Nm ''Surface''), ANode material_output] node_tree) (\<lambda>_ node_tree.
     and_then (hide_node_outputs light_path node_tree) (\<lambda>_ node_tree.
     and_then (hide_node_outputs geometry_input node_tree) (\<lambda>_ node_tree.
     (Inr random_splitter, node_tree))))))"

text \<open>Lines 235 to 240.\<close>

definition color_chain ::
  "nat \<Rightarrow> iface_socket list \<Rightarrow> nat \<Rightarrow> nat \<Rightarrow> node_tree \<Rightarrow> (error + unit) \<times> node_tree" where
  "color_chain grp iface random_splitter emission node_tree =
     and_then (make_group_node grp iface (-600) (-200) node_tree) (\<lambda>random_color node_tree.
     connect_nodes
       [ANode random_splitter, ASock (Nm ''Random 2''),
        ASock (Nm ''Random''), ANode random_color, ASock (Nm ''Color''),
        ASock (Nm ''Color''), ANode emission] node_tree)"

text \<open>
  Lines 137 to 243. \<^verbatim>\<open>bpy.data.materials["Star Shader"]\<close> in line 243 finds the material
  again by its name.
\<close>

definition group_interface :: "nat \<Rightarrow> 'g session \<Rightarrow> iface_socket list" where
  "group_interface grp s = interface (group_tree (node_groups s ! grp))"

definition material_stage ::
  "props \<Rightarrow> nat \<Rightarrow> 'g session \<Rightarrow> (error + unit) \<times> 'g session" where
  "material_stage p template_obj s =
     and_then
       (case index_of (\<lambda>m. material_name m = ''Star Shader'') (materials s) of
          Some m \<Rightarrow> (Inr m, s)
        | None \<Rightarrow> (case materials_new ''Star Shader'' s of (m, s1) \<Rightarrow> (Inr m, s1)))
       (\<lambda>shader s.
     and_then (Inr (), update_material shader (\<lambda>m. m\<lparr>use_nodes := True\<rparr>) s) (\<lambda>_ s.
     and_then (on_material_tree shader (shader_nodes p) s)
       (\<lambda>(material_output, emission, math_lightpath, light_path, math_intensity) s.
     and_then (node_groups_new ''Random Intensity'' ''ShaderNodeTree'' s) (\<lambda>grp s.
     and_then (on_group_tree grp random_intensity_body s) (\<lambda>_ s.
     and_then (on_material_tree shader (make_group_node grp (group_interface grp s) (-800) 0) s)
       (\<lambda>random_magnitude s.
     and_then (node_groups_new ''Random Splitter'' ''ShaderNodeTree'' s) (\<lambda>grp s.
     and_then (on_group_tree grp random_splitter_body s) (\<lambda>_ s.
     and_then (on_material_tree shader
                 (main_chain grp (group_interface grp s) material_output emission math_lightpath
                    light_path math_intensity random_magnitude) s) (\<lambda>random_splitter s.
     and_then (node_groups_new ''Random Star Color'' ''ShaderNodeTree'' s) (\<lambda>grp s.
     and_then (on_group_tree grp random_star_color_body s) (\<lambda>_ s.
     and_then (on_material_tree shader
                 (color_chain grp (group_interface grp s) random_splitter emission) s) (\<lambda>_ s.
     (case index_of (\<lambda>m. material_name m = ''Star Shader'') (materials s) of
        None \<Rightarrow> (Inl KeyError, s)
      | Some m \<Rightarrow>
          (Inr (), update_object template_obj (\<lambda>ob. ob\<lparr>active_material := Some m\<rparr>) s))))))))))))))"

subsection \<open>Constraint, drivers, relationship, world\<close>

text \<open>Lines 249 to 252.\<close>

definition constraint_stage :: "props \<Rightarrow> camera \<Rightarrow> nat \<Rightarrow> 'g session \<Rightarrow> (error + unit) \<times> 'g session" where
  "constraint_stage p cam stars_obj s =
     and_then (Inr (), update_object stars_obj (\<lambda>ob. ob\<lparr>constraints := []\<rparr>) s) (\<lambda>_ s.
     if camera_lock p then
       (Inr (),
        update_object stars_obj
          (\<lambda>ob. ob\<lparr>constraints := constraints ob @
             [\<lparr>constraint_type = ''COPY_LOCATION'', constraint_target = Some (camera_name cam)\<rparr>]\<rparr>) s)
     else (Inr (), s))"

text \<open>
  \<^verbatim>\<open>obj.driver_add("scale")\<close> returns one driver for each of the three components of
  the scale: the driver the component has, or a new one.
\<close>

fun driver_add_loop :: "string \<Rightarrow> nat list \<Rightarrow> nat list \<Rightarrow> object \<Rightarrow> nat list \<times> object" where
  "driver_add_loop path [] fcurves ob = (fcurves, ob)"
| "driver_add_loop path (i # is) fcurves ob =
     (case index_of (\<lambda>f. fcurve_path f = path \<and> array_index f = i) (drivers ob) of
        Some k \<Rightarrow> driver_add_loop path is (fcurves @ [k]) ob
      | None \<Rightarrow>
          driver_add_loop path is (fcurves @ [length (drivers ob)])
            (ob\<lparr>drivers := drivers ob @
               [\<lparr>fcurve_path = path, array_index = i, variables = [], expression = []\<rparr>]\<rparr>))"

definition driver_add :: "string \<Rightarrow> object \<Rightarrow> nat list \<times> object" where
  "driver_add path ob = driver_add_loop path [0, 1, 2] [] ob"

text \<open>
  \<^verbatim>\<open>fcurve.driver.variables.new()\<close> and the five assignments that follow it.
\<close>

definition new_variable :: "string \<Rightarrow> string \<Rightarrow> string \<Rightarrow> string \<Rightarrow> fcurve \<Rightarrow> fcurve" where
  "new_variable name idtype ident path f =
     f\<lparr>variables := variables f @
        [\<lparr>variable_name = name, variable_type = ''SINGLE_PROP'',
          targets = [\<lparr>id_type = idtype, target_id = ident, data_path = path\<rparr>]\<rparr>]\<rparr>"

fun for_fcurves :: "nat list \<Rightarrow> (fcurve \<Rightarrow> fcurve) \<Rightarrow> object \<Rightarrow> object" where
  "for_fcurves [] body ob = ob"
| "for_fcurves (k # ks) body ob =
     for_fcurves ks body (ob\<lparr>drivers := (drivers ob)[k := body (drivers ob ! k)]\<rparr>)"

text \<open>Lines 256 to 268, and lines 272 to 311.\<close>

definition stars_driver_stage :: "camera \<Rightarrow> nat \<Rightarrow> 'g session \<Rightarrow> (error + unit) \<times> 'g session" where
  "stars_driver_stage cam stars_obj s =
     (Inr (),
      update_object stars_obj
        (\<lambda>ob. case driver_add ''scale'' ob of
           (fcurves, ob1) \<Rightarrow>
             for_fcurves fcurves
               (\<lambda>f. (new_variable ''s'' ''CAMERA'' (camera_data cam) ''clip_end'' f)
                      \<lparr>expression := ''0.9 * s''\<rparr>) ob1) s)"

definition template_driver_stage :: "camera \<Rightarrow> nat \<Rightarrow> 'g session \<Rightarrow> (error + unit) \<times> 'g session" where
  "template_driver_stage cam template_obj s =
     (Inr (),
      update_object template_obj
        (\<lambda>ob. case driver_add ''scale'' ob of
           (fcurves, ob1) \<Rightarrow>
             for_fcurves fcurves
               (\<lambda>f. (new_variable ''p'' ''SCENE'' (scene_name s) ''render.resolution_percentage''
                      (new_variable ''y'' ''SCENE'' (scene_name s) ''render.resolution_y''
                      (new_variable ''x'' ''SCENE'' (scene_name s) ''render.resolution_x''
                      (new_variable ''f'' ''CAMERA'' (camera_data cam) ''lens'' f))))
                      \<lparr>expression := ''50 / f * 2202.907 / max(x, y) / p * 100''\<rparr>) ob1) s)"

text \<open>Lines 314 to 321.\<close>

definition relationship_stage :: "nat \<Rightarrow> nat \<Rightarrow> 'g session \<Rightarrow> (error + unit) \<times> 'g session" where
  "relationship_stage stars_obj template_obj s =
     and_then (Inr (), update_object template_obj (\<lambda>ob. ob\<lparr>parent := Some stars_obj\<rparr>) s) (\<lambda>_ s.
     and_then (Inr (), update_object stars_obj (\<lambda>ob. ob\<lparr>instance_type := ''VERTS''\<rparr>) s) (\<lambda>_ s.
     and_then (Inr (), update_object stars_obj
                 (\<lambda>ob. ob\<lparr>use_instance_vertices_rotation := True\<rparr>) s) (\<lambda>_ s.
     and_then (Inr (), update_object stars_obj
                 (\<lambda>ob. ob\<lparr>show_instancer_for_render := False\<rparr>) s) (\<lambda>_ s.
     (Inr (), update_object template_obj (\<lambda>ob. ob\<lparr>hide_viewport := True\<rparr>) s)))))"

text \<open>Lines 326 to 330. Without a world, \<^verbatim>\<open>bpy.context.world\<close> is \<^verbatim>\<open>None\<close>.\<close>

definition world_stage :: "props \<Rightarrow> 'g session \<Rightarrow> (error + unit) \<times> 'g session" where
  "world_stage p s =
     (if clear_world_bg p then
        (case context_world s of
           None \<Rightarrow> (Inl AttributeError, s)
         | Some w \<Rightarrow>
             (Inr (), s\<lparr>context_world := Some (w\<lparr>world_use_nodes := False, world_color := (0, 0, 0)\<rparr>)\<rparr>))
      else (Inr (), s))"

subsection \<open>The generation call\<close>

definition generate_starscape ::
  "('g \<Rightarrow> nat \<times> 'g) \<Rightarrow> (int \<Rightarrow> 'g) \<Rightarrow> props \<Rightarrow> 'g session \<Rightarrow> (error + bool) \<times> 'g session" where
  "generate_starscape rnd seed p s =
     (case scene_camera s of
        None \<Rightarrow> (Inr False, s)
      | Some cam \<Rightarrow>
          if camera_type cam \<noteq> ''PERSP'' then (Inr False, s)
          else
            and_then (star_field_stage rnd seed p s) (\<lambda>stars_obj s.
            and_then (template_stage s) (\<lambda>template_obj s.
            and_then (material_stage p template_obj s) (\<lambda>_ s.
            and_then (constraint_stage p cam stars_obj s) (\<lambda>_ s.
            and_then (stars_driver_stage cam stars_obj s) (\<lambda>_ s.
            and_then (template_driver_stage cam template_obj s) (\<lambda>_ s.
            and_then (relationship_stage stars_obj template_obj s) (\<lambda>_ s.
            and_then (world_stage p s) (\<lambda>_ s.
            (Inr True, s))))))))))"


subsection \<open>Preconditions of the call\<close>

text \<open>
  \<open>mesh_object_ok name s\<close>: an object of that name, if the session has one, refers to a
  mesh. \<open>mesh_object_bound name s\<close>: an object of that name, if the session has one,
  refers to the mesh the script keeps for it, the one named \<open>name_mesh\<close>.
\<close>

definition mesh_object_ok :: "string \<Rightarrow> 'g session \<Rightarrow> bool" where
  "mesh_object_ok name s =
     (case index_of (\<lambda>ob. object_name ob = name) (objects s) of
        None \<Rightarrow> True
      | Some k \<Rightarrow>
         (case data (objects s ! k) of
            None \<Rightarrow> False
          | Some m \<Rightarrow> m < length (meshes s)))"

definition mesh_object_bound :: "string \<Rightarrow> 'g session \<Rightarrow> bool" where
  "mesh_object_bound name s =
     (case index_of (\<lambda>ob. object_name ob = name) (objects s) of
        None \<Rightarrow> True
      | Some k \<Rightarrow>
         (case data (objects s ! k) of
            None \<Rightarrow> False
          | Some m \<Rightarrow> index_of (\<lambda>x. mesh_name x = name @ ''_mesh'') (meshes s) = Some m))"



text \<open>
  \<open>returns r Q\<close>: the step returned without raising, with a value and a state that
  satisfy \<open>Q\<close>. \<open>untouched s\<close> collects what only the world stage of the call can change.
  \<open>seeded rnd seed p s\<close> is the session once the star positions are drawn.
\<close>

definition returns :: "(error + 'a) \<times> 's \<Rightarrow> ('a \<Rightarrow> 's \<Rightarrow> bool) \<Rightarrow> bool" where
  "returns r Q = (case r of (Inr a, s) \<Rightarrow> Q a s | (Inl e, s) \<Rightarrow> False)"

definition untouched :: "'g session \<Rightarrow> string \<times> camera option \<times> world option" where
  "untouched s = (scene_name s, scene_camera s, context_world s)"

definition seeded :: "('g \<Rightarrow> nat \<times> 'g) \<Rightarrow> (int \<Rightarrow> 'g) \<Rightarrow> props \<Rightarrow> 'g session \<Rightarrow> 'g session" where
  "seeded rnd seed p s =
     s\<lparr>random_state := stream_state rnd (seed (random_seed p))
        (2 * star_count (star_density p) (hemisphere p))\<rparr>"

text \<open>
  The three node groups one call of \<^verbatim>\<open>generate_starscape\<close> adds to a registry whose
  groups have the names \<open>ns\<close>.
\<close>

definition starscape_groups :: "string list \<Rightarrow> node_group list" where
  "starscape_groups ns =
     (let n1 = unique_name ns ''Random Intensity'';
          n2 = unique_name (ns @ [n1]) ''Random Splitter'';
          n3 = unique_name (ns @ [n1, n2]) ''Random Star Color''
      in [\<lparr>group_name = n1, group_kind = ''ShaderNodeTree'',
            group_tree = snd (random_intensity_body empty_tree)\<rparr>,
          \<lparr>group_name = n2, group_kind = ''ShaderNodeTree'',
            group_tree = snd (random_splitter_body empty_tree)\<rparr>,
          \<lparr>group_name = n3, group_kind = ''ShaderNodeTree'',
            group_tree = snd (random_star_color_body empty_tree)\<rparr>])"

text \<open>
  \<open>keeps s s'\<close>: from \<open>s\<close> to \<open>s'\<close> no registry has gained or lost an entry, no entry has
  changed its name, no object its mesh and no mesh its geometry.
\<close>

definition keeps :: "'g session \<Rightarrow> 'g session \<Rightarrow> bool" where
  "keeps s s' =
     (map object_name (objects s') = map object_name (objects s)
      \<and> map data (objects s') = map data (objects s)
      \<and> meshes s' = meshes s
      \<and> node_groups s' = node_groups s
      \<and> map material_name (materials s') = map material_name (materials s)
      \<and> scene_camera s' = scene_camera s
      \<and> scene_name s' = scene_name s)"

subsection \<open>Sessions to run the call on\<close>

text \<open>
  A session as the host starts it from an empty file, with or without an active camera,
  and a generator for it: the state counts the draws, and draw \<open>k\<close> is \<open>k\<close>.
\<close>

definition new_session :: "camera option \<Rightarrow> 'g \<Rightarrow> 'g session" where
  "new_session cam g =
     \<lparr>scene_name = ''Scene'', scene_camera = cam,
      context_world = Some \<lparr>world_use_nodes = True, world_color = (1 / 20, 1 / 20, 1 / 20)\<rparr>,
      meshes = [], objects = [], collection_objects = [], materials = [], node_groups = [],
      random_state = g\<rparr>"

definition camera_of_type :: "string \<Rightarrow> camera" where
  "camera_of_type ty = \<lparr>camera_name = ''Camera'', camera_data = ''Camera'', camera_type = ty\<rparr>"

definition counting_rnd :: "nat \<Rightarrow> nat \<times> nat" where
  "counting_rnd g = (g, Suc g)"

definition props_of :: "real \<Rightarrow> bool \<Rightarrow> props" where
  "props_of density lock =
     \<lparr>random_seed = 42, star_density = density, hemisphere = False, star_intensity = 1,
      camera_lock = lock, clear_world_bg = True\<rparr>"


subsection \<open>A tree to link and a session with another mesh\<close>

text \<open>
  A tree of two math nodes, to link. A session in which the object
  \<^verbatim>\<open>Star_Template\<close> refers to a mesh of another name that holds one vertex, as it is
  after the user has given the object another mesh.
\<close>

definition example_tree :: node_tree where
  "example_tree =
     snd (make_math_node ''ADD'' 0 0 (1 / 2) (1 / 2)
       (snd (make_math_node ''ADD'' 0 0 (1 / 2) (1 / 2) empty_tree)))"



section \<open>Properties of the point generation\<close>

lemma py_random_range: "py_random rnd g = (u, g') \<Longrightarrow> 0 \<le> u \<and> u < 1"
  by (auto simp: py_random_def split: prod.splits)

lemma py_random_snd: "snd (py_random rnd g) = snd (rnd g)"
  by (simp add: py_random_def split: prod.splits)

lemma random_spherical_coordinates_total:
  "random_spherical_coordinates rnd g =
     (Inr (fst (py_random rnd g) * 2 * pi,
           arcsin (2 * fst (py_random rnd (snd (rnd g))) - 1)),
      snd (rnd (snd (rnd g))))"
proof -
  obtain u1 g1 where a: "py_random rnd g = (u1, g1)" by (cases "py_random rnd g")
  obtain u2 g2 where b: "py_random rnd g1 = (u2, g2)" by (cases "py_random rnd g1")
  have g1: "g1 = snd (rnd g)" using a py_random_snd[of rnd g] by simp
  have g2: "g2 = snd (rnd g1)" using b py_random_snd[of rnd g1] by simp
  from py_random_range[OF b] have "-1 \<le> 2 * u2 - 1 \<and> 2 * u2 - 1 \<le> 1" by simp
  then have "py_asin (2 * u2 - 1) = Inr (arcsin (2 * u2 - 1))" by (simp add: py_asin_def)
  then show ?thesis using a b g1 g2
    by (simp add: random_spherical_coordinates_def Let_def)
qed

lemma spec_point_unit: "on_unit_sphere (spec_point h u1 u2)"
proof -
  have "(cos a * cos b)\<^sup>2 + (sin a * cos b)\<^sup>2 + (sin b)\<^sup>2 = 1" for a b :: real
  proof -
    have "(cos a * cos b)\<^sup>2 + (sin a * cos b)\<^sup>2 = ((cos a)\<^sup>2 + (sin a)\<^sup>2) * (cos b)\<^sup>2"
      by (simp only: power_mult_distrib distrib_right)
    also have "\<dots> = (cos b)\<^sup>2" by simp
    finally show ?thesis by simp
  qed
  then show ?thesis by (simp add: on_unit_sphere_def spec_point_def Let_def)
qed

lemma stream_state_Suc: "stream_state rnd (snd (rnd g)) k = stream_state rnd g (Suc k)"
  using funpow_swap1[of "\<lambda>h. snd (rnd h)" k g] by (simp add: stream_state_def)

lemma stream_draw_Suc: "stream_draw rnd (snd (rnd g)) k = stream_draw rnd g (Suc k)"
  by (simp add: stream_draw_def stream_state_Suc)

lemma star_loop_step:
  "star_loop rnd h (Suc n) vs g =
     star_loop rnd h n (vs @ [spec_point h (stream_draw rnd g 0) (stream_draw rnd g 1)])
       (stream_state rnd g 2)"
  by (simp add: random_spherical_coordinates_total spherical_to_cartesian_coordinates_def
      spec_point_def Let_def stream_draw_def stream_state_def numeral_2_eq_2)

lemma spec_points_shift:
  "spec_points rnd g h (Suc n) =
     spec_point h (stream_draw rnd g 0) (stream_draw rnd g 1) # spec_points rnd (stream_state rnd g 2) h n"
proof -
  have s: "stream_draw rnd (stream_state rnd g 2) k = stream_draw rnd g (Suc (Suc k))" for k
    using stream_draw_Suc[of rnd "snd (rnd g)" k] stream_draw_Suc[of rnd g "Suc k"]
    by (simp add: stream_state_def numeral_2_eq_2)
  have "[0..<Suc n] = 0 # map Suc [0..<n]"
    by (simp add: upt_conv_Cons map_Suc_upt del: upt_Suc)
  then show ?thesis
    by (simp add: spec_points_def s comp_def del: upt_Suc)
qed

lemma stream_state_add: "stream_state rnd (stream_state rnd g a) b = stream_state rnd g (a + b)"
  by (simp add: stream_state_def funpow_add add.commute[of a b])

lemma star_loop_spec:
  "star_loop rnd h n vs g = (Inr (vs @ spec_points rnd g h n), stream_state rnd g (2 * n))"
proof (induction n arbitrary: vs g)
  case 0
  show ?case by (simp add: spec_points_def stream_state_def)
next
  case (Suc n)
  show ?case
    unfolding star_loop_step Suc.IH spec_points_shift
    by (simp add: stream_state_add)
qed

lemma star_positions_spec:
  "star_positions rnd seed g0 rs d h =
     (Inr (spec_points rnd (seed rs) h (star_count d h)),
      stream_state rnd (seed rs) (2 * star_count d h))"
  by (simp add: star_positions_def star_loop_spec Let_def)

lemma length_spec_points: "length (spec_points rnd g h n) = n"
  by (simp add: spec_points_def)

lemma py_round_int: "py_round (of_int k) = k"
  by (simp add: py_round_def)

lemma star_count_2: "star_count 2 False = 2000"
proof -
  have "py_round (1000 * 2) = 2000" using py_round_int[of 2000] by simp
  then show ?thesis by (simp add: star_count_def)
qed

lemma py_round_nonneg: "0 \<le> x \<Longrightarrow> 0 \<le> py_round x"
proof -
  assume "0 \<le> x"
  then have "0 \<le> \<lfloor>x\<rfloor>" by simp
  then show ?thesis by (simp add: py_round_def Let_def)
qed

lemma star_count_int:
  "0 \<le> d \<Longrightarrow> int (star_count d False) = py_round (1000 * d)"
  "0 \<le> d \<Longrightarrow> int (star_count d True) = py_round (1000 * d / 2)"
  using py_round_nonneg[of "1000 * d"] py_round_nonneg[of "1000 * d / 2"]
  by (simp_all add: star_count_def)

text \<open>
  Claim C3, as the code has it. For every density that is not negative, the number of
  star positions is \<open>round (1000 * star_density)\<close> without the hemisphere flag. With the
  flag the product is halved before the one rounding: the number is
  \<open>round (1000 * star_density / 2)\<close>. A density of 2 without the flag gives exactly 2000
  positions.
\<close>

theorem star_positions_count:
  assumes "0 \<le> d"
  shows "map_sum id (\<lambda>vs. int (length vs)) (fst (star_positions rnd seed g0 rs d False)) =
      Inr (py_round (1000 * d))
   \<and> map_sum id (\<lambda>vs. int (length vs)) (fst (star_positions rnd seed g0 rs d True)) =
      Inr (py_round (1000 * d / 2))
   \<and> map_sum id (\<lambda>vs. int (length vs)) (fst (star_positions rnd seed g0 rs 2 False)) =
      Inr 2000"
  using assms star_count_2 star_count_int[of d]
  by (simp add: star_positions_spec length_spec_points)

lemma py_round_13: "py_round (13 / 10) = 1" "py_round (26 / 10) = 3" "py_round (3 / 2) = 2"
  by (simp_all add: py_round_def)

text \<open>
  Claim C3 as the specification words it, the rounded count halved and rounded again,
  fails at the density 0.0026 with the hemisphere flag: the rounded count is 3 and half
  of it rounds to 2, and the code generates one position.
\<close>

theorem star_positions_count_counterexample:
  "map_sum id (\<lambda>vs. int (length vs))
     (fst (star_positions (\<lambda>g. (0, g)) (\<lambda>n. ()) () 0 (13 / 5000) True)) = Inr 1
   \<and> py_round (real_of_int (py_round (1000 * (13 / 5000))) / 2) = 2"
  using py_round_13 by (simp add: star_positions_spec length_spec_points star_count_def)

text \<open>
  Claim C4. The point sequence does not depend on the state the generator was in before
  the call: two runs with the same seed, density and hemisphere flag give the same
  vertices and leave the same generator state. The vertices are those of the
  specification's stream: point \<open>i\<close> is made of draws \<open>2 * i\<close> and \<open>2 * i + 1\<close> of the
  stream seeded with the given seed.
\<close>

theorem star_positions_deterministic:
  "star_positions rnd seed g1 rs d h = star_positions rnd seed g2 rs d h
   \<and> fst (star_positions rnd seed g1 rs d h) = Inr (spec_points rnd (seed rs) h (star_count d h))"
  by (simp add: star_positions_spec)

lemma spec_points_unit: "p \<in> set (spec_points rnd g h n) \<Longrightarrow> on_unit_sphere p"
  by (auto simp: spec_points_def spec_point_unit)

text \<open>
  Claim C9. The point generation returns a list of vertices, and every vertex
  \<open>(x, y, z)\<close> of it satisfies \<open>x\<^sup>2 + y\<^sup>2 + z\<^sup>2 = 1\<close> in real arithmetic, with and
  without the hemisphere flag.
\<close>

theorem star_positions_on_unit_sphere:
  "\<exists>vs g. star_positions rnd seed g0 rs d h = (Inr vs, g) \<and> (\<forall>p\<in>set vs. on_unit_sphere p)"
  by (simp add: star_positions_spec spec_points_unit)

lemma spec_point_zero: "spec_point False 0 0 = (0, 0, -1)" "spec_point True 0 0 = (0, 0, 1)"
  by (simp_all add: spec_point_def Let_def sin_minus)

text \<open>
  At a generator that always draws 0, seed 0, density 0.002 and the hemisphere flag, the
  one vertex is the pole \<open>(0, 0, 1)\<close>.
\<close>

theorem star_positions_on_unit_sphere_witness:
  "fst (star_positions (\<lambda>g. (0, g)) (\<lambda>n. ()) () 0 (1 / 500) True) = Inr [(0, 0, 1)]
   \<and> on_unit_sphere (0, 0, 1)"
  using star_positions_on_unit_sphere[of "\<lambda>g. (0, g)" "\<lambda>n. ()" "()" 0 "1 / 500" True]
  by (simp add: star_positions_spec star_count_def py_round_def spec_points_def
      stream_draw_def py_random_def spec_point_zero)


theorem star_positions_count_witness:
  "(0::real) \<le> 1 / 2
   \<and> map_sum id (\<lambda>vs. int (length vs))
       (fst (star_positions (\<lambda>g. (0, g)) (\<lambda>n. ()) () 0 (1 / 2) False)) = Inr 500
   \<and> map_sum id (\<lambda>vs. int (length vs))
       (fst (star_positions (\<lambda>g. (0, g)) (\<lambda>n. ()) () 0 (1 / 2) True)) = Inr 250"
proof -
  have "py_round (1000 * (1 / 2)) = 500" using py_round_int[of 500] by simp
  moreover have "py_round (1000 * (1 / 2) / 2) = 250" using py_round_int[of 250] by simp
  ultimately show ?thesis
    using star_positions_count[of "1 / 2" "\<lambda>g. (0, g)" "\<lambda>n. ()" "()" 0] by simp
qed

theorem star_positions_deterministic_witness:
  "star_positions (\<lambda>g. (g, Suc g)) nat 5 42 2 False = star_positions (\<lambda>g. (g, Suc g)) nat 7 42 2 False
   \<and> fst (star_positions (\<lambda>g. (g, Suc g)) nat 5 42 2 False) =
       Inr (spec_points (\<lambda>g. (g, Suc g)) 42 False 2000)"
  using star_positions_deterministic[of "\<lambda>g. (g, Suc g)" nat 5 42 2 False 7] star_count_2
  by (simp add: star_positions_spec)


section \<open>Properties of the node trees\<close>

subsection \<open>Linking a chain of nodes\<close>

lemma links_new_nodes: "nodes (links_new l t) = nodes t"
  by (simp add: links_new_def)

lemma socket_lookup_no_exception: "socket_lookup names key \<noteq> Inl (Exception m)"
  by (simp add: socket_lookup_def split: sock.splits option.splits)

lemma connect_loop_no_exception: "fst (connect_loop args ks t) \<noteq> Inl (Exception m)"
  by (induction ks arbitrary: t)
     (auto simp: Let_def socket_lookup_no_exception split: arg.splits sum.splits)

lemma connect_loop_step_Some:
  assumes "3 * i + 3 < length args" "nodes t' = nodes t" "resolve_link t args i = Some l"
  shows "connect_loop args (i # ks) t' = connect_loop args ks (links_new l t')"
proof -
  have e: "3 * (i + 1) = 3 * i + 3" by simp
  show ?thesis
    using assms unfolding connect_loop.simps e Let_def resolve_link_def
    by (auto split: arg.splits sum.splits if_splits)
qed

lemma connect_loop_step_None:
  assumes "3 * i + 3 < length args" "nodes t' = nodes t" "resolve_link t args i = None"
  shows "\<exists>e. connect_loop args (i # ks) t' = (Inl e, t')"
proof -
  have e: "3 * (i + 1) = 3 * i + 3" by simp
  show ?thesis
    using assms unfolding connect_loop.simps e Let_def resolve_link_def
    by (auto split: arg.splits sum.splits if_splits)
qed

lemma connect_loop_chain:
  assumes "\<forall>i\<in>set ks. 3 * i + 3 < length args" "nodes t' = nodes t"
    "None \<notin> set (map (resolve_link t args) ks)"
  shows "connect_loop args ks t' =
     (Inr (), foldl (\<lambda>t l. links_new l t) t' (map (\<lambda>i. the (resolve_link t args i)) ks))"
  using assms
proof (induction ks arbitrary: t')
  case Nil
  show ?case by simp
next
  case (Cons i ks)
  from Cons.prems(3) obtain l where l: "resolve_link t args i = Some l" by (cases "resolve_link t args i") auto
  have len: "3 * i + 3 < length args" using Cons.prems(1) by simp
  have n: "nodes (links_new l t') = nodes t" using Cons.prems(2) by (simp add: links_new_nodes)
  have "connect_loop args (i # ks) t' = connect_loop args ks (links_new l t')"
    using len Cons.prems(2) l by (rule connect_loop_step_Some)
  also have "\<dots> = (Inr (), foldl (\<lambda>t l. links_new l t) (links_new l t')
      (map (\<lambda>i. the (resolve_link t args i)) ks))"
    using Cons.prems(1,3) n by (intro Cons.IH) auto
  finally show ?case using l by simp
qed

lemma connect_loop_fails:
  assumes "\<forall>i\<in>set ks. 3 * i + 3 < length args" "nodes t' = nodes t"
    "None \<in> set (map (resolve_link t args) ks)"
  shows "\<exists>e. fst (connect_loop args ks t') = Inl e"
  using assms
proof (induction ks arbitrary: t')
  case Nil
  then show ?case by simp
next
  case (Cons i ks)
  have len: "3 * i + 3 < length args" using Cons.prems(1) by simp
  show ?case
  proof (cases "resolve_link t args i")
    case None
    from connect_loop_step_None[OF len Cons.prems(2) None, of ks] show ?thesis by auto
  next
    case (Some l)
    have n: "nodes (links_new l t') = nodes t" using Cons.prems(2) by (simp add: links_new_nodes)
    have "connect_loop args (i # ks) t' = connect_loop args ks (links_new l t')"
      using len Cons.prems(2) Some by (rule connect_loop_step_Some)
    moreover have "\<exists>e. fst (connect_loop args ks (links_new l t')) = Inl e"
      using Cons.prems(1,3) n Some by (intro Cons.IH) auto
    ultimately show ?thesis by simp
  qed
qed

lemma arity_indices:
  assumes "4 \<le> int (length args)" "(int (length args) - 4) mod 3 = 0"
  shows "nat ((int (length args) - 1) div 3) = (length args - 1) div 3"
    and "\<forall>i\<in>set [0..<(length args - 1) div 3]. 3 * i + 3 < length args"
proof -
  define n where "n = (length args - 1) div 3"
  have len: "length args = 3 * n + 1" using assms unfolding n_def by presburger
  show "nat ((int (length args) - 1) div 3) = (length args - 1) div 3" using len by simp
  show "\<forall>i\<in>set [0..<(length args - 1) div 3]. 3 * i + 3 < length args"
    using len unfolding n_def[symmetric] by auto
qed

lemma connect_nodes_resolved:
  assumes "4 \<le> int (length args)" "(int (length args) - 4) mod 3 = 0"
    "None \<notin> set (chain_links t args)"
  shows "connect_nodes args t =
     (Inr (), foldl (\<lambda>t l. links_new l t) t (map the (chain_links t args)))"
  using assms connect_loop_chain[OF arity_indices(2)[OF assms(1,2)], of t t]
  by (simp add: connect_nodes_def Let_def chain_links_def arity_indices(1) comp_def)

lemma connect_nodes_unresolved:
  assumes "4 \<le> int (length args)" "(int (length args) - 4) mod 3 = 0"
    "None \<in> set (chain_links t args)"
  shows "\<exists>e. fst (connect_nodes args t) = Inl e"
  using assms connect_loop_fails[OF arity_indices(2)[OF assms(1,2)], of t t]
  by (simp add: connect_nodes_def Let_def chain_links_def arity_indices(1))

text \<open>
  Claim C7, as the code has it. \<^verbatim>\<open>connect_nodes\<close> raises its exception
  \<^verbatim>\<open>Invalid number of arguments!\<close> exactly when the number of arguments after the
  tree is below 4 or fails \<open>(argc - 4) mod 3 = 0\<close>, and then the tree is as before: no
  link is made. When the number passes the check there is one step of the chain for every
  three arguments after the first, and the call returns without raising exactly when
  every step resolves to two nodes of the tree, an output socket of the first and an
  input socket of the second (\<open>chain_links\<close>); the links made are then those of the
  steps, in order.
\<close>

theorem connect_nodes_arity:
  "((fst (connect_nodes args t) = Inl (Exception ''Invalid number of arguments!'')) =
      (int (length args) < 4 \<or> (int (length args) - 4) mod 3 \<noteq> 0))
   \<and> (int (length args) < 4 \<or> (int (length args) - 4) mod 3 \<noteq> 0 \<longrightarrow>
        snd (connect_nodes args t) = t)
   \<and> (4 \<le> int (length args) \<and> (int (length args) - 4) mod 3 = 0 \<longrightarrow>
        ((fst (connect_nodes args t) = Inr ()) = (None \<notin> set (chain_links t args)))
        \<and> length (chain_links t args) = (length args - 1) div 3)
   \<and> (4 \<le> int (length args) \<and> (int (length args) - 4) mod 3 = 0
        \<and> None \<notin> set (chain_links t args) \<longrightarrow>
        snd (connect_nodes args t) =
          foldl (\<lambda>t l. links_new l t) t (map the (chain_links t args)))"
proof (intro conjI impI)
  show "(fst (connect_nodes args t) = Inl (Exception ''Invalid number of arguments!'')) =
      (int (length args) < 4 \<or> (int (length args) - 4) mod 3 \<noteq> 0)"
    using connect_loop_no_exception[of args _ t]
    by (simp add: connect_nodes_def Let_def)
next
  assume "int (length args) < 4 \<or> (int (length args) - 4) mod 3 \<noteq> 0"
  then show "snd (connect_nodes args t) = t" by (simp add: connect_nodes_def)
next
  assume h: "4 \<le> int (length args) \<and> (int (length args) - 4) mod 3 = 0"
  show "(fst (connect_nodes args t) = Inr ()) = (None \<notin> set (chain_links t args))"
  proof (cases "None \<in> set (chain_links t args)")
    case True
    with h connect_nodes_unresolved[of args t] show ?thesis by auto
  next
    case False
    with h connect_nodes_resolved[of args t] show ?thesis by simp
  qed
next
  show "length (chain_links t args) = (length args - 1) div 3" by (simp add: chain_links_def)
next
  assume "4 \<le> int (length args) \<and> (int (length args) - 4) mod 3 = 0
      \<and> None \<notin> set (chain_links t args)"
  then show "snd (connect_nodes args t) =
      foldl (\<lambda>t l. links_new l t) t (map the (chain_links t args))"
    using connect_nodes_resolved[of args t] by simp
qed


subsection \<open>The node groups\<close>

lemmas tree_defs = and_then_def make_group_inputs_def make_group_outputs_def make_math_node_def
  make_node_def connect_nodes_def nodes_new_def update_node_def links_new_def empty_tree_def
  upt_conv_Cons new_socket_def socket_lookup_def socket_names_def host_sockets_def

text \<open>
  Claim C7 as the specification words it fails in both directions. With one argument
  the condition holds, \<open>(1 - 4) mod 3 = 0\<close>, and the call raises its exception. With
  four arguments the condition holds and the call raises all the same:
  \<^verbatim>\<open>KeyError\<close> where the second node has no input socket of the name given, and
  \<^verbatim>\<open>AttributeError\<close> where the last argument is a socket key and not a node.
\<close>

theorem connect_nodes_arity_counterexample:
  "(int (length [ANode 0]) - 4) mod 3 = 0
   \<and> connect_nodes [ANode 0] example_tree =
       (Inl (Exception ''Invalid number of arguments!''), example_tree)
   \<and> (int (length [ANode 0, ASock (Nm ''Value''), ASock (Nm ''No Such Socket''), ANode 1]) - 4)
        mod 3 = 0
   \<and> connect_nodes [ANode 0, ASock (Nm ''Value''), ASock (Nm ''No Such Socket''), ANode 1]
        example_tree = (Inl KeyError, example_tree)
   \<and> connect_nodes [ANode 0, ASock (Idx 0), ASock (Idx 0), ASock (Idx 0)] example_tree =
        (Inl AttributeError, example_tree)"
  by (simp add: example_tree_def tree_defs)

text \<open>
  Five arguments fail the check and leave the tree of two math nodes as it is; four
  arguments that name the nodes and their sockets make the one link.
\<close>

theorem connect_nodes_arity_witness:
  "connect_nodes [ANode 0, ASock (Nm ''Value''), ASock (Idx 0), ANode 1, ASock (Idx 0)] example_tree =
       (Inl (Exception ''Invalid number of arguments!''), example_tree)
   \<and> connect_nodes [ANode 0, ASock (Nm ''Value''), ASock (Idx 1), ANode 1] example_tree =
       (Inr (), links_new \<lparr>to_node = 1, to_socket = 1, from_node = 0, from_socket = 0\<rparr>
                  example_tree)
   \<and> chain_links example_tree [ANode 0, ASock (Nm ''Value''), ASock (Idx 1), ANode 1] =
       [Some \<lparr>to_node = 1, to_socket = 1, from_node = 0, from_socket = 0\<rparr>]"
proof -
  have c: "chain_links example_tree [ANode 0, ASock (Nm ''Value''), ASock (Idx 1), ANode 1] =
       [Some \<lparr>to_node = 1, to_socket = 1, from_node = 0, from_socket = 0\<rparr>]"
    by (simp add: chain_links_def resolve_link_def example_tree_def tree_defs)
  show ?thesis
    using connect_nodes_arity[of "[ANode 0, ASock (Nm ''Value''), ASock (Idx 0), ANode 1, ASock (Idx 0)]" example_tree]
      connect_nodes_arity[of "[ANode 0, ASock (Nm ''Value''), ASock (Idx 1), ANode 1]" example_tree] c
    by (simp add: prod_eq_iff)
qed

lemma random_splitter_tree:
  "random_splitter_body empty_tree =
    (Inr (),
     \<lparr>nodes =
        [\<lparr>bl_idname = ''NodeGroupInput'', operation = [], location = (0, 0),
          inputs = [], outputs = [''Random''], default_values = [],
          group_of = None, hidden_outputs = []\<rparr>,
         \<lparr>bl_idname = ''NodeGroupOutput'', operation = [], location = (600, 0),
          inputs = [''Random 1'', ''Random 2''], outputs = [], default_values = [],
          group_of = None, hidden_outputs = []\<rparr>,
         \<lparr>bl_idname = ''ShaderNodeMath'', operation = ''MULTIPLY'', location = (200, - 100),
          inputs = [''Value'', ''Value'', ''Value''], outputs = [''Value''], default_values = [1 / 2, 1000, 1 / 2],
          group_of = None, hidden_outputs = []\<rparr>,
         \<lparr>bl_idname = ''ShaderNodeMath'', operation = ''MODULO'', location = (400, - 100),
          inputs = [''Value'', ''Value'', ''Value''], outputs = [''Value''], default_values = [1 / 2, 1, 1 / 2],
          group_of = None, hidden_outputs = []\<rparr>],
      links =
        [\<lparr>to_node = 1, to_socket = 0, from_node = 0, from_socket = 0\<rparr>,
         \<lparr>to_node = 2, to_socket = 0, from_node = 0, from_socket = 0\<rparr>,
         \<lparr>to_node = 3, to_socket = 0, from_node = 2, from_socket = 0\<rparr>,
         \<lparr>to_node = 1, to_socket = 1, from_node = 3, from_socket = 0\<rparr>],
      interface =
        [\<lparr>socket_name = ''Random'', in_out = ''INPUT'', socket_type = ''NodeSocketFloat''\<rparr>,
         \<lparr>socket_name = ''Random 1'', in_out = ''OUTPUT'', socket_type = ''NodeSocketFloat''\<rparr>,
         \<lparr>socket_name = ''Random 2'', in_out = ''OUTPUT'', socket_type = ''NodeSocketFloat''\<rparr>]\<rparr>)"
  by (simp add: random_splitter_body_def tree_defs)

lemma random_intensity_tree:
  "random_intensity_body empty_tree =
    (Inr (),
     \<lparr>nodes =
        [\<lparr>bl_idname = ''NodeGroupInput'', operation = [], location = (0, 0),
          inputs = [], outputs = [''Random''], default_values = [],
          group_of = None, hidden_outputs = []\<rparr>,
         \<lparr>bl_idname = ''NodeGroupOutput'', operation = [], location = (1200, 0),
          inputs = [''Intensity''], outputs = [], default_values = [],
          group_of = None, hidden_outputs = []\<rparr>,
         \<lparr>bl_idname = ''ShaderNodeMath'', operation = ''MULTIPLY'', location = (200, 0),
          inputs = [''Value'', ''Value'', ''Value''], outputs = [''Value''], default_values = [1 / 2, 9100, 1 / 2],
          group_of = None, hidden_outputs = []\<rparr>,
         \<lparr>bl_idname = ''ShaderNodeMath'', operation = ''DIVIDE'', location = (400, 0),
          inputs = [''Value'', ''Value'', ''Value''], outputs = [''Value''], default_values = [1 / 2, 356 / 100, 1 / 2],
          group_of = None, hidden_outputs = []\<rparr>,
         \<lparr>bl_idname = ''ShaderNodeMath'', operation = ''LOGARITHM'', location = (600, 0),
          inputs = [''Value'', ''Value'', ''Value''], outputs = [''Value''], default_values = [1 / 2, exp 1, 1 / 2],
          group_of = None, hidden_outputs = []\<rparr>,
         \<lparr>bl_idname = ''ShaderNodeMath'', operation = ''DIVIDE'', location = (800, 0),
          inputs = [''Value'', ''Value'', ''Value''], outputs = [''Value''], default_values = [1 / 2, - (121 / 100), 1 / 2],
          group_of = None, hidden_outputs = []\<rparr>,
         \<lparr>bl_idname = ''ShaderNodeMath'', operation = ''POWER'', location = (1000, 0),
          inputs = [''Value'', ''Value'', ''Value''], outputs = [''Value''], default_values = [2512 / 1000, 1 / 2, 1 / 2],
          group_of = None, hidden_outputs = []\<rparr>],
      links =
        [\<lparr>to_node = 2, to_socket = 0, from_node = 0, from_socket = 0\<rparr>,
         \<lparr>to_node = 3, to_socket = 0, from_node = 2, from_socket = 0\<rparr>,
         \<lparr>to_node = 4, to_socket = 0, from_node = 3, from_socket = 0\<rparr>,
         \<lparr>to_node = 5, to_socket = 0, from_node = 4, from_socket = 0\<rparr>,
         \<lparr>to_node = 6, to_socket = 1, from_node = 5, from_socket = 0\<rparr>,
         \<lparr>to_node = 1, to_socket = 0, from_node = 6, from_socket = 0\<rparr>],
      interface =
        [\<lparr>socket_name = ''Random'', in_out = ''INPUT'', socket_type = ''NodeSocketFloat''\<rparr>,
         \<lparr>socket_name = ''Intensity'', in_out = ''OUTPUT'', socket_type = ''NodeSocketFloat''\<rparr>]\<rparr>)"
  by (simp add: random_intensity_body_def tree_defs)

lemma random_star_color_tree:
  "random_star_color_body empty_tree =
    (Inr (),
     \<lparr>nodes =
        [\<lparr>bl_idname = ''NodeGroupInput'', operation = [], location = (0, 0),
          inputs = [], outputs = [''Random''], default_values = [],
          group_of = None, hidden_outputs = []\<rparr>,
         \<lparr>bl_idname = ''NodeGroupOutput'', operation = [], location = (800, 0),
          inputs = [''Color''], outputs = [], default_values = [],
          group_of = None, hidden_outputs = []\<rparr>,
         \<lparr>bl_idname = ''ShaderNodeMath'', operation = ''MULTIPLY'', location = (200, 0),
          inputs = [''Value'', ''Value'', ''Value''], outputs = [''Value''], default_values = [1 / 2, 17000, 1 / 2],
          group_of = None, hidden_outputs = []\<rparr>,
         \<lparr>bl_idname = ''ShaderNodeMath'', operation = ''ADD'', location = (400, 0),
          inputs = [''Value'', ''Value'', ''Value''], outputs = [''Value''], default_values = [1 / 2, 3000, 1 / 2],
          group_of = None, hidden_outputs = []\<rparr>,
         \<lparr>bl_idname = ''ShaderNodeBlackbody'', operation = [], location = (600, 0),
          inputs = [''Temperature''], outputs = [''Color''], default_values = [],
          group_of = None, hidden_outputs = []\<rparr>],
      links =
        [\<lparr>to_node = 2, to_socket = 0, from_node = 0, from_socket = 0\<rparr>,
         \<lparr>to_node = 3, to_socket = 0, from_node = 2, from_socket = 0\<rparr>,
         \<lparr>to_node = 4, to_socket = 0, from_node = 3, from_socket = 0\<rparr>,
         \<lparr>to_node = 1, to_socket = 0, from_node = 4, from_socket = 0\<rparr>],
      interface =
        [\<lparr>socket_name = ''Random'', in_out = ''INPUT'', socket_type = ''NodeSocketFloat''\<rparr>,
         \<lparr>socket_name = ''Color'', in_out = ''OUTPUT'', socket_type = ''NodeSocketColor''\<rparr>]\<rparr>)"
  by (simp add: random_star_color_body_def tree_defs)

lemma splitter_random_1:
  "eval_group 3 (snd (random_splitter_body empty_tree)) env ''Random 1'' = Some (env ''Random'')"
  by (simp add: random_splitter_tree eval_group_def eval_nat_numeral)

lemma splitter_random_2:
  "eval_group 3 (snd (random_splitter_body empty_tree)) env ''Random 2'' =
     math_value ''MODULO'' (env ''Random'' * 1000) 1"
  by (simp add: random_splitter_tree eval_group_def eval_nat_numeral math_value_def)

lemma modulo_one: "0 \<le> a \<Longrightarrow> math_value ''MODULO'' a 1 = Some (frac a)"
  by (simp add: math_value_def frac_def)

lemma intensity_eval:
  "0 < env ''Random'' \<Longrightarrow>
   eval_group 6 (snd (random_intensity_body empty_tree)) env ''Intensity'' =
     Some (intensity_formula (env ''Random''))"
  by (simp add: random_intensity_tree eval_group_def eval_nat_numeral math_value_def
      intensity_formula_def)

lemma intensity_formula_less:
  assumes "0 < r1" "r1 < r2"
  shows "intensity_formula r2 < intensity_formula r1"
proof -
  have "r1 * 9100 / (356 / 100) < r2 * 9100 / (356 / 100)" using assms by simp
  moreover have "0 < r1 * 9100 / (356 / 100)" using assms by simp
  ultimately have "ln (r1 * 9100 / (356 / 100)) < ln (r2 * 9100 / (356 / 100))"
    by (simp only: ln_less_cancel_iff) 
  then have "ln (r2 * 9100 / (356 / 100)) / (- (121 / 100)) < ln (r1 * 9100 / (356 / 100)) / (- (121 / 100))"
    by (simp add: divide_less_cancel)
  then show ?thesis
    unfolding intensity_formula_def by (intro powr_less_mono) simp_all
qed

text \<open>
  Claim C5. The statements that build the group \<^verbatim>\<open>Random Intensity\<close> return without
  raising; for a random input in the open interval from 0 to 1, the output
  \<^verbatim>\<open>Intensity\<close> of the tree they build evaluates to the specification's formula; and
  the formula is strictly decreasing there: the larger input has the smaller intensity.
\<close>

theorem random_intensity_decreasing:
  assumes "0 < r1" "r1 < r2" "r2 < 1"
  shows "fst (random_intensity_body empty_tree) = Inr ()
    \<and> eval_group 6 (snd (random_intensity_body empty_tree)) (env(''Random'' := r1)) ''Intensity'' =
        Some (intensity_formula r1)
    \<and> eval_group 6 (snd (random_intensity_body empty_tree)) (env(''Random'' := r2)) ''Intensity'' =
        Some (intensity_formula r2)
    \<and> intensity_formula r2 < intensity_formula r1"
proof -
  have "0 < r2" using assms by simp
  moreover have "fst (random_intensity_body empty_tree) = Inr ()"
    by (simp add: random_intensity_tree)
  ultimately show ?thesis
    using assms intensity_eval[of "env(''Random'' := r1)"] intensity_eval[of "env(''Random'' := r2)"]
      intensity_formula_less[of r1 r2]
    by simp
qed

text \<open>The inputs 0.25 and 0.5.\<close>

theorem random_intensity_decreasing_witness:
  "eval_group 6 (snd (random_intensity_body empty_tree)) ((\<lambda>_. 0)(''Random'' := 1 / 4)) ''Intensity'' =
        Some (intensity_formula (1 / 4))
    \<and> eval_group 6 (snd (random_intensity_body empty_tree)) ((\<lambda>_. 0)(''Random'' := 1 / 2)) ''Intensity'' =
        Some (intensity_formula (1 / 2))
    \<and> intensity_formula (1 / 2) < intensity_formula (1 / 4)"
  using random_intensity_decreasing[of "1 / 4" "1 / 2" "\<lambda>_. 0"] by simp

text \<open>
  Claim C6. The statements that build the group \<^verbatim>\<open>Random Splitter\<close> return without
  raising; for an input \<open>r\<close> with \<open>0 \<le> r < 1\<close>, the output \<^verbatim>\<open>Random 1\<close> of the tree
  evaluates to \<open>r\<close> and the output \<^verbatim>\<open>Random 2\<close> to the fractional part of
  \<open>r * 1000\<close>, which is at least 0 and below 1.
\<close>

theorem random_splitter_outputs:
  assumes "0 \<le> r" "r < 1"
  shows "fst (random_splitter_body empty_tree) = Inr ()
    \<and> eval_group 3 (snd (random_splitter_body empty_tree)) (env(''Random'' := r)) ''Random 1'' = Some r
    \<and> eval_group 3 (snd (random_splitter_body empty_tree)) (env(''Random'' := r)) ''Random 2'' =
        Some (frac (r * 1000))
    \<and> 0 \<le> frac (r * 1000) \<and> frac (r * 1000) < 1"
proof -
  have "fst (random_splitter_body empty_tree) = Inr ()" by (simp add: random_splitter_tree)
  then show ?thesis
    using assms modulo_one[of "r * 1000"]
    by (simp add: splitter_random_1 splitter_random_2 frac_lt_1)
qed

text \<open>The input 0.1234: the second output is the fractional part of 123.4.\<close>

theorem random_splitter_outputs_witness:
  "eval_group 3 (snd (random_splitter_body empty_tree)) ((\<lambda>_. 0)(''Random'' := 1234 / 10000)) ''Random 1'' =
      Some (1234 / 10000)
    \<and> eval_group 3 (snd (random_splitter_body empty_tree)) ((\<lambda>_. 0)(''Random'' := 1234 / 10000)) ''Random 2'' =
      Some (2 / 5)"
proof -
  have "frac (1234 / 10000 * 1000 :: real) = 2 / 5" by (simp add: frac_def)
  then show ?thesis
    using random_splitter_outputs[of "1234 / 10000" "\<lambda>_. 0"] by simp
qed


section \<open>Properties of the generation call\<close>

subsection \<open>Steps and registries\<close>

lemma and_then_Inr: "and_then (Inr a, s) f = f a s"
  by (simp add: and_then_def)

lemma and_then_Inl: "and_then (Inl e, s) f = (Inl e, s)"
  by (simp add: and_then_def)

lemma and_thenE:
  assumes "and_then r f = (Inr v, s')"
  obtains a s1 where "r = (Inr a, s1)" and "f a s1 = (Inr v, s')"
  using assms by (cases r; cases "fst r") (auto simp: and_then_def)

lemma and_then_frame:
  assumes "g (snd r) = c" and "\<And>a s1. g s1 = c \<Longrightarrow> g (snd (f a s1)) = c"
  shows "g (snd (and_then r f)) = c"
  using assms by (cases r; cases "fst r") (auto simp: and_then_def)

lemma index_of_Some: "index_of P xs = Some k \<Longrightarrow> k < length xs \<and> P (xs ! k)"
  by (induction xs arbitrary: k) (auto split: if_splits)

lemma index_of_None: "index_of P xs = None \<Longrightarrow> \<forall>x\<in>set xs. \<not> P x"
  by (induction xs) (auto split: if_splits)

lemma index_of_append_Some: "index_of P xs = Some k \<Longrightarrow> index_of P (xs @ ys) = Some k"
  by (induction xs arbitrary: k) (auto split: if_splits)

lemma index_of_append_None:
  "index_of P xs = None \<Longrightarrow> index_of P (xs @ [x]) = (if P x then Some (length xs) else None)"
  by (induction xs) (auto split: if_splits)

lemma index_of_map: "index_of P (map f xs) = index_of (\<lambda>x. P (f x)) xs"
  by (induction xs) auto

lemma index_of_names:
  "map f xs = map f ys \<Longrightarrow> index_of (\<lambda>x. f x = n) xs = index_of (\<lambda>x. f x = n) ys"
  using index_of_map[of "\<lambda>a. a = n" f xs] index_of_map[of "\<lambda>a. a = n" f ys] by simp

lemma map_list_update_same:
  assumes g: "\<And>x. g (f x) = g x"
  shows "map g (xs[k := f (xs ! k)]) = map g xs"
proof (cases "k < length xs")
  case True
  have "(map g xs)[k := map g xs ! k] = map g xs" by (rule list_update_id)
  then show ?thesis using True g by (simp add: map_update)
next
  case False
  then have "xs[k := f (xs ! k)] = xs" by (simp add: list_update_beyond)
  then show ?thesis by simp
qed

lemma unique_name_free: "name \<notin> set used \<Longrightarrow> unique_name used name = name"
  by (simp add: unique_name_def)

lemma update_object_map:
  "(\<And>ob. g (f ob) = g ob) \<Longrightarrow> map g (objects (update_object k f s)) = map g (objects s)"
  by (simp add: update_object_def map_list_update_same)

lemma update_object_other [simp]:
  "meshes (update_object k f s) = meshes s"
  "materials (update_object k f s) = materials s"
  "node_groups (update_object k f s) = node_groups s"
  "length (objects (update_object k f s)) = length (objects s)"
  by (simp_all add: update_object_def)

lemma driver_add_loop_fields:
  "object_name (snd (driver_add_loop path ks fcs ob)) = object_name ob"
  "constraints (snd (driver_add_loop path ks fcs ob)) = constraints ob"
  "data (snd (driver_add_loop path ks fcs ob)) = data ob"
  by (induction ks arbitrary: fcs ob; simp split: option.splits)+

lemma for_fcurves_fields:
  "object_name (for_fcurves ks body ob) = object_name ob"
  "constraints (for_fcurves ks body ob) = constraints ob"
  "data (for_fcurves ks body ob) = data ob"
  by (induction ks arbitrary: ob; simp)+

lemma driver_body_fields:
  "object_name (case driver_add path ob of (fcs, ob1) \<Rightarrow> for_fcurves fcs body ob1) = object_name ob"
  "constraints (case driver_add path ob of (fcs, ob1) \<Rightarrow> for_fcurves fcs body ob1) = constraints ob"
  "data (case driver_add path ob of (fcs, ob1) \<Rightarrow> for_fcurves fcs body ob1) = data ob"
  by (simp_all only: case_prod_beta for_fcurves_fields driver_add_def driver_add_loop_fields)

lemma index_of_None_notin:
  "index_of (\<lambda>x. f x = n) xs = None \<Longrightarrow> n \<notin> set (map f xs)"
  using index_of_None[of "\<lambda>x. f x = n" xs] by auto

lemma create_fst:
  "fst (create_or_reuse_mesh_object name s) =
     Inr (case index_of (\<lambda>ob. object_name ob = name) (objects s) of
            Some j \<Rightarrow> j | None \<Rightarrow> length (objects s))"
  by (simp add: create_or_reuse_mesh_object_def meshes_new_def objects_new_def
      split: option.splits prod.splits)

lemma create_objects:
  "objects (snd (create_or_reuse_mesh_object name s)) =
     (case index_of (\<lambda>ob. object_name ob = name) (objects s) of
        Some j \<Rightarrow> objects s
      | None \<Rightarrow> objects s @
          [new_object name
             (case index_of (\<lambda>m. mesh_name m = name @ ''_mesh'') (meshes s) of
                Some i \<Rightarrow> i | None \<Rightarrow> length (meshes s))])"
  by (auto simp: create_or_reuse_mesh_object_def meshes_new_def objects_new_def new_object_def
      unique_name_free dest: index_of_None_notin split: option.splits prod.splits)

lemma create_meshes:
  "meshes (snd (create_or_reuse_mesh_object name s)) =
     (case index_of (\<lambda>m. mesh_name m = name @ ''_mesh'') (meshes s) of
        Some i \<Rightarrow> (meshes s)[i := clear_geometry (meshes s ! i)]
      | None \<Rightarrow> meshes s @
          [\<lparr>mesh_name = name @ ''_mesh'', vertices = [], edges = [], polygons = []\<rparr>])"
  by (auto simp: create_or_reuse_mesh_object_def meshes_new_def objects_new_def
      unique_name_free dest: index_of_None_notin split: option.splits prod.splits)

lemma create_other:
  "node_groups (snd (create_or_reuse_mesh_object name s)) = node_groups s"
  "materials (snd (create_or_reuse_mesh_object name s)) = materials s"
  "scene_camera (snd (create_or_reuse_mesh_object name s)) = scene_camera s"
  "context_world (snd (create_or_reuse_mesh_object name s)) = context_world s"
  "scene_name (snd (create_or_reuse_mesh_object name s)) = scene_name s"
  "random_state (snd (create_or_reuse_mesh_object name s)) = random_state s"
  by (simp_all add: create_or_reuse_mesh_object_def meshes_new_def objects_new_def
      split: option.splits prod.splits)

lemma from_pydata_other:
  "objects (snd (from_pydata obj vs es fs s)) = objects s"
  "node_groups (snd (from_pydata obj vs es fs s)) = node_groups s"
  "materials (snd (from_pydata obj vs es fs s)) = materials s"
  "scene_camera (snd (from_pydata obj vs es fs s)) = scene_camera s"
  "context_world (snd (from_pydata obj vs es fs s)) = context_world s"
  "scene_name (snd (from_pydata obj vs es fs s)) = scene_name s"
  "random_state (snd (from_pydata obj vs es fs s)) = random_state s"
  "length (meshes (snd (from_pydata obj vs es fs s))) = length (meshes s)"
  "map mesh_name (meshes (snd (from_pydata obj vs es fs s))) = map mesh_name (meshes s)"
  by (simp_all add: from_pydata_def map_update list_update_same_conv split: option.splits)



lemma and_then_fst_snd: "fst r = Inr a \<Longrightarrow> and_then r f = f a (snd r)"
  by (cases r) (simp add: and_then_def)

lemma mesh_object_ok_from_pydata:
  "mesh_object_ok name s \<Longrightarrow> index_of (\<lambda>ob. object_name ob = name) (objects s) = Some k \<Longrightarrow>
     fst (from_pydata k vs es fs s) = Inr ()"
  by (auto simp: mesh_object_ok_def from_pydata_def split: option.splits)

lemma create_index:
  "index_of (\<lambda>ob. object_name ob = name) (objects (snd (create_or_reuse_mesh_object name s))) =
     Some (case index_of (\<lambda>ob. object_name ob = name) (objects s) of
             Some j \<Rightarrow> j | None \<Rightarrow> length (objects s))"
  by (simp add: create_objects index_of_append_None new_object_def split: option.splits)

lemma create_mesh_object_ok:
  "mesh_object_ok name s \<Longrightarrow> mesh_object_ok name (snd (create_or_reuse_mesh_object name s))"
  unfolding mesh_object_ok_def create_index
  by (auto simp: create_objects create_meshes new_object_def nth_append
      dest: index_of_Some split: option.splits)

lemma mesh_object_ok_cong:
  "objects s' = objects s \<Longrightarrow> meshes s' = meshes s \<Longrightarrow>
     mesh_object_ok n s' = mesh_object_ok n s"
  by (simp add: mesh_object_ok_def split: option.splits)

lemma mesh_object_bound_cong:
  "objects s' = objects s \<Longrightarrow> meshes s' = meshes s \<Longrightarrow>
     mesh_object_bound n s' = mesh_object_bound n s"
  by (simp add: mesh_object_bound_def split: option.splits)

lemma seeded_fields:
  "objects (seeded rnd seed p s) = objects s"
  "meshes (seeded rnd seed p s) = meshes s"
  "materials (seeded rnd seed p s) = materials s"
  "node_groups (seeded rnd seed p s) = node_groups s"
  "scene_camera (seeded rnd seed p s) = scene_camera s"
  "context_world (seeded rnd seed p s) = context_world s"
  "scene_name (seeded rnd seed p s) = scene_name s"
  by (simp_all add: seeded_def)

lemma star_field_stage_eq:
  "star_field_stage rnd seed p s =
     and_then (create_or_reuse_mesh_object ''Starscape'' (seeded rnd seed p s)) (\<lambda>stars_obj s.
     and_then (from_pydata stars_obj
         (spec_points rnd (seed (random_seed p)) (hemisphere p)
            (star_count (star_density p) (hemisphere p))) [] [] s)
       (\<lambda>_ s. (Inr stars_obj, s)))"
  by (simp add: star_field_stage_def star_positions_spec and_then_Inr seeded_def)

lemma star_field_stage_fst:
  assumes "mesh_object_ok ''Starscape'' s"
  shows "fst (star_field_stage rnd seed p s) =
     Inr (case index_of (\<lambda>ob. object_name ob = ''Starscape'') (objects s) of
            Some j \<Rightarrow> j | None \<Rightarrow> length (objects s))"
proof -
  let ?s0 = "seeded rnd seed p s"
  have ok: "mesh_object_ok ''Starscape'' ?s0"
    using assms mesh_object_ok_cong[of ?s0 s] by (simp add: seeded_fields)
  have f: "fst (from_pydata
      (case index_of (\<lambda>ob. object_name ob = ''Starscape'') (objects ?s0) of
            Some j \<Rightarrow> j | None \<Rightarrow> length (objects ?s0)) vs [] []
      (snd (create_or_reuse_mesh_object ''Starscape'' ?s0))) = Inr ()" for vs
    by (rule mesh_object_ok_from_pydata[OF create_mesh_object_ok[OF ok] create_index])
  show ?thesis
    unfolding star_field_stage_eq and_then_fst_snd[OF create_fst] and_then_fst_snd[OF f]
    by (simp add: seeded_fields cong: option.case_cong)
qed

lemma star_field_stage_objects:
  "objects (snd (star_field_stage rnd seed p s)) =
     (case index_of (\<lambda>ob. object_name ob = ''Starscape'') (objects s) of
        Some j \<Rightarrow> objects s
      | None \<Rightarrow> objects s @
          [new_object ''Starscape''
             (case index_of (\<lambda>m. mesh_name m = ''Starscape_mesh'') (meshes s) of
                Some i \<Rightarrow> i | None \<Rightarrow> length (meshes s))])"
  unfolding star_field_stage_eq and_then_fst_snd[OF create_fst]
  by (rule and_then_frame)
     (simp_all add: from_pydata_other create_objects seeded_fields cong: option.case_cong)

lemma clear_geometry_names:
  "map mesh_name (ms[i := clear_geometry (ms ! i)]) = map mesh_name ms"
  by (rule map_list_update_same) (simp add: clear_geometry_def)

lemma create_mesh_names:
  "map mesh_name (meshes (snd (create_or_reuse_mesh_object name s))) =
     (case index_of (\<lambda>m. mesh_name m = name @ ''_mesh'') (meshes s) of
        Some i \<Rightarrow> map mesh_name (meshes s)
      | None \<Rightarrow> map mesh_name (meshes s) @ [name @ ''_mesh''])"
  by (simp add: create_meshes clear_geometry_names split: option.splits)

lemma star_field_stage_mesh_names:
  "map mesh_name (meshes (snd (star_field_stage rnd seed p s))) =
     (case index_of (\<lambda>m. mesh_name m = ''Starscape_mesh'') (meshes s) of
        Some i \<Rightarrow> map mesh_name (meshes s)
      | None \<Rightarrow> map mesh_name (meshes s) @ [''Starscape_mesh''])"
  unfolding star_field_stage_eq and_then_fst_snd[OF create_fst]
  by (rule and_then_frame)
     (simp_all add: from_pydata_other create_mesh_names seeded_fields cong: option.case_cong)

lemma star_field_stage_other:
  "node_groups (snd (star_field_stage rnd seed p s)) = node_groups s"
  "materials (snd (star_field_stage rnd seed p s)) = materials s"
  "scene_camera (snd (star_field_stage rnd seed p s)) = scene_camera s"
  "context_world (snd (star_field_stage rnd seed p s)) = context_world s"
  "scene_name (snd (star_field_stage rnd seed p s)) = scene_name s"
  unfolding star_field_stage_eq and_then_fst_snd[OF create_fst]
  by (rule and_then_frame; simp add: from_pydata_other create_other seeded_fields)+

lemma template_stage_fst:
  assumes ok: "mesh_object_ok ''Star_Template'' s"
  shows "fst (template_stage s) =
     Inr (case index_of (\<lambda>ob. object_name ob = ''Star_Template'') (objects s) of
            Some j \<Rightarrow> j | None \<Rightarrow> length (objects s))"
proof -
  have f: "fst (from_pydata
      (case index_of (\<lambda>ob. object_name ob = ''Star_Template'') (objects s) of
            Some j \<Rightarrow> j | None \<Rightarrow> length (objects s)) vs es fs
      (snd (create_or_reuse_mesh_object ''Star_Template'' s))) = Inr ()" for vs es fs
    by (rule mesh_object_ok_from_pydata[OF create_mesh_object_ok[OF ok] create_index])
  show ?thesis
    unfolding template_stage_def and_then_fst_snd[OF create_fst] and_then_fst_snd[OF f]
    by simp
qed

lemma template_stage_objects:
  "objects (snd (template_stage s)) =
     (case index_of (\<lambda>ob. object_name ob = ''Star_Template'') (objects s) of
        Some j \<Rightarrow> objects s
      | None \<Rightarrow> objects s @
          [new_object ''Star_Template''
             (case index_of (\<lambda>m. mesh_name m = ''Star_Template_mesh'') (meshes s) of
                Some i \<Rightarrow> i | None \<Rightarrow> length (meshes s))])"
  unfolding template_stage_def and_then_fst_snd[OF create_fst]
  by (rule and_then_frame)
     (simp_all add: from_pydata_other create_objects cong: option.case_cong)

lemma template_stage_other:
  "node_groups (snd (template_stage s)) = node_groups s"
  "materials (snd (template_stage s)) = materials s"
  "scene_camera (snd (template_stage s)) = scene_camera s"
  "context_world (snd (template_stage s)) = context_world s"
  "scene_name (snd (template_stage s)) = scene_name s"
  unfolding template_stage_def and_then_fst_snd[OF create_fst]
  by (rule and_then_frame; simp add: from_pydata_other create_other)+


subsection \<open>Steps that return\<close>

lemma returnsD: "returns r Q \<Longrightarrow> \<exists>a s. r = (Inr a, s) \<and> Q a s"
  by (cases r; cases "fst r") (auto simp: returns_def)

lemma returns_eq: "returns r Q \<Longrightarrow> r = (Inr a, s) \<Longrightarrow> Q a s"
  by (simp add: returns_def)

lemma returns_Inr: "Q a s \<Longrightarrow> returns (Inr a, s) Q"
  by (simp add: returns_def)

lemma returns_and_then: "returns r (\<lambda>a s. returns (f a s) Q) \<Longrightarrow> returns (and_then r f) Q"
  by (cases r; cases "fst r") (auto simp: returns_def and_then_def)

lemma returns_weaken: "returns r P \<Longrightarrow> (\<And>a s. P a s \<Longrightarrow> Q a s) \<Longrightarrow> returns r Q"
  by (cases r; cases "fst r") (auto simp: returns_def)

lemmas tree_ops = and_then_def make_group_inputs_def make_group_outputs_def make_math_node_def
  make_node_def connect_nodes_def nodes_new_def update_node_def links_new_def
  upt_conv_Cons new_socket_def socket_lookup_def socket_names_def host_sockets_def
  make_group_node_def hide_node_outputs_def nodes_clear_def

lemma group_interfaces:
  "interface (snd (random_intensity_body empty_tree)) =
     [\<lparr>socket_name = ''Random'', in_out = ''INPUT'', socket_type = ''NodeSocketFloat''\<rparr>,
      \<lparr>socket_name = ''Intensity'', in_out = ''OUTPUT'', socket_type = ''NodeSocketFloat''\<rparr>]"
  "interface (snd (random_splitter_body empty_tree)) =
     [\<lparr>socket_name = ''Random'', in_out = ''INPUT'', socket_type = ''NodeSocketFloat''\<rparr>,
      \<lparr>socket_name = ''Random 1'', in_out = ''OUTPUT'', socket_type = ''NodeSocketFloat''\<rparr>,
      \<lparr>socket_name = ''Random 2'', in_out = ''OUTPUT'', socket_type = ''NodeSocketFloat''\<rparr>]"
  "interface (snd (random_star_color_body empty_tree)) =
     [\<lparr>socket_name = ''Random'', in_out = ''INPUT'', socket_type = ''NodeSocketFloat''\<rparr>,
      \<lparr>socket_name = ''Color'', in_out = ''OUTPUT'', socket_type = ''NodeSocketColor''\<rparr>]"
  by (simp_all add: random_intensity_tree random_splitter_tree random_star_color_tree)

lemma shader_nodes_fst: "fst (shader_nodes p t) = Inr (0, 1, 2, 3, 4)"
  by (simp add: shader_nodes_def tree_ops)

lemma magnitude_node_fst:
  "fst (make_group_node g1 if1 x y (snd (shader_nodes p t))) = Inr 5"
  by (simp add: shader_nodes_def tree_ops)

lemma main_chain_fst:
  "fst (main_chain g2 (interface (snd (random_splitter_body empty_tree))) 0 1 2 3 4 5
         (snd (make_group_node g1 (interface (snd (random_intensity_body empty_tree))) x y
            (snd (shader_nodes p t))))) = Inr 6"
  by (simp add: group_interfaces main_chain_def shader_nodes_def tree_ops)

lemma color_chain_fst:
  "fst (color_chain g3 (interface (snd (random_star_color_body empty_tree))) 6 1
         (snd (main_chain g2 (interface (snd (random_splitter_body empty_tree))) 0 1 2 3 4 5
            (snd (make_group_node g1 (interface (snd (random_intensity_body empty_tree))) x y
               (snd (shader_nodes p t))))))) = Inr ()"
  by (simp add: group_interfaces color_chain_def main_chain_def shader_nodes_def tree_ops)


subsection \<open>The material stage\<close>

lemma untouched_simps:
  "untouched (update_object k f s) = untouched s"
  "untouched (update_material m g s) = untouched s"
  "untouched (s\<lparr>node_groups := ng\<rparr>) = untouched s"
  "untouched (s\<lparr>materials := ms\<rparr>) = untouched s"
  by (simp_all add: untouched_def update_object_def update_material_def)

lemma update_material_fields:
  "objects (update_material m g s) = objects s"
  "meshes (update_material m g s) = meshes s"
  "node_groups (update_material m g s) = node_groups s"
  "length (materials (update_material m g s)) = length (materials s)"
  by (simp_all add: update_material_def)

lemma update_material_names:
  "(\<And>x. material_name (g x) = material_name x) \<Longrightarrow>
     map material_name (materials (update_material m g s)) = map material_name (materials s)"
  by (simp add: update_material_def map_list_update_same)

lemma update_material_tree:
  "m < length (materials s) \<Longrightarrow>
     material_tree (materials (update_material m g s) ! m) = material_tree (g (materials s ! m))"
  by (simp add: update_material_def)

lemma shader_lookup_returns:
  "returns
     (case index_of (\<lambda>m. material_name m = ''Star Shader'') (materials s) of
        Some m \<Rightarrow> (Inr m, s)
      | None \<Rightarrow> (case materials_new ''Star Shader'' s of (m, s1) \<Rightarrow> (Inr m, s1)))
     (\<lambda>m s'. index_of (\<lambda>m. material_name m = ''Star Shader'') (materials s') = Some m
        \<and> m < length (materials s')
        \<and> map material_name (materials s') =
            (case index_of (\<lambda>m. material_name m = ''Star Shader'') (materials s) of
               Some _ \<Rightarrow> map material_name (materials s)
             | None \<Rightarrow> map material_name (materials s) @ [''Star Shader''])
        \<and> objects s' = objects s \<and> meshes s' = meshes s \<and> node_groups s' = node_groups s
        \<and> untouched s' = untouched s)"
proof (cases "index_of (\<lambda>m. material_name m = ''Star Shader'') (materials s)")
  case None
  then have "unique_name (map material_name (materials s)) ''Star Shader'' = ''Star Shader''"
    by (intro unique_name_free index_of_None_notin)
  then show ?thesis using None
    by (simp add: returns_def materials_new_def untouched_def index_of_append_None)
next
  case (Some m)
  then show ?thesis by (simp add: returns_def index_of_Some)
qed

lemma on_material_tree_returns:
  assumes "m < length (materials s)" "fst (f (material_tree (materials s ! m))) = Inr a"
  shows "returns (on_material_tree m f s)
     (\<lambda>a' s'. a' = a
        \<and> material_tree (materials s' ! m) = snd (f (material_tree (materials s ! m)))
        \<and> length (materials s') = length (materials s)
        \<and> map material_name (materials s') = map material_name (materials s)
        \<and> objects s' = objects s \<and> meshes s' = meshes s \<and> node_groups s' = node_groups s
        \<and> untouched s' = untouched s)"
proof -
  obtain t' where "f (material_tree (materials s ! m)) = (Inr a, t')"
    using assms(2) by (cases "f (material_tree (materials s ! m))") auto
  then show ?thesis
    using assms(1)
    by (simp add: on_material_tree_def returns_def untouched_simps update_material_fields
        update_material_names update_material_tree)
qed

lemma node_groups_new_returns:
  "returns (node_groups_new name kind s)
     (\<lambda>k s'. k = length (node_groups s)
        \<and> node_groups s' = node_groups s @
            [\<lparr>group_name = unique_name (map group_name (node_groups s)) name,
              group_kind = kind, group_tree = empty_tree\<rparr>]
        \<and> materials s' = materials s \<and> objects s' = objects s \<and> meshes s' = meshes s
        \<and> untouched s' = untouched s)"
  by (simp add: node_groups_new_def returns_def untouched_def)

lemma on_group_tree_returns:
  assumes "group_tree (node_groups s ! k) = empty_tree" "fst (f empty_tree) = Inr a"
  shows "returns (on_group_tree k f s)
     (\<lambda>_ s'. node_groups s' =
          (node_groups s)[k := (node_groups s ! k)\<lparr>group_tree := snd (f empty_tree)\<rparr>]
        \<and> materials s' = materials s \<and> objects s' = objects s \<and> meshes s' = meshes s
        \<and> untouched s' = untouched s)"
proof -
  obtain t' where "f empty_tree = (Inr a, t')"
    using assms(2) by (cases "f empty_tree") auto
  then show ?thesis
    using assms(1) by (simp add: on_group_tree_def returns_def untouched_def)
qed

lemma group_body_fst:
  "fst (random_intensity_body empty_tree) = Inr ()"
  "fst (random_splitter_body empty_tree) = Inr ()"
  "fst (random_star_color_body empty_tree) = Inr ()"
  by (simp_all add: random_intensity_tree random_splitter_tree random_star_color_tree)

lemma nth_append_tail:
  "(xs @ [a, b]) ! Suc (length xs) = b"
  "(xs @ [a, b, c]) ! Suc (Suc (length xs)) = c"
  by (simp_all add: nth_append)

lemma update_append_tail:
  "(xs @ [a, b])[Suc (length xs) := b'] = xs @ [a, b']"
  "(xs @ [a, b, c])[Suc (Suc (length xs)) := c'] = xs @ [a, b, c']"
  by (simp_all add: list_update_append)

lemma index_of_material_names:
  "index_of (\<lambda>m. material_name m = n) xs = index_of (\<lambda>a. a = n) (map material_name xs)"
  by (simp add: index_of_map)

lemma material_stage_returns:
  "returns (material_stage p t s)
     (\<lambda>_ s'. node_groups s' = node_groups s @ starscape_groups (map group_name (node_groups s))
        \<and> map material_name (materials s') =
            (case index_of (\<lambda>m. material_name m = ''Star Shader'') (materials s) of
               Some _ \<Rightarrow> map material_name (materials s)
             | None \<Rightarrow> map material_name (materials s) @ [''Star Shader''])
        \<and> map object_name (objects s') = map object_name (objects s)
        \<and> map constraints (objects s') = map constraints (objects s)
        \<and> map data (objects s') = map data (objects s)
        \<and> meshes s' = meshes s \<and> untouched s' = untouched s)"
  unfolding material_stage_def
  apply (rule returns_and_then, rule returns_weaken[OF shader_lookup_returns], elim conjE)
  apply (rule returns_and_then, rule returns_Inr)
  apply (rule returns_and_then, rule returns_weaken, rule on_material_tree_returns)
    apply (simp add: update_material_fields)
   apply (rule shader_nodes_fst)
  apply (elim conjE, clarify)
  apply (rule returns_and_then, rule returns_weaken[OF node_groups_new_returns], elim conjE)
  apply (rule returns_and_then, rule returns_weaken, rule on_group_tree_returns)
    apply simp
   apply (rule group_body_fst)
  apply (elim conjE)
  apply (rule returns_and_then, rule returns_weaken, rule on_material_tree_returns)
    apply (simp add: update_material_fields)
   apply (simp add: group_interface_def magnitude_node_fst)
  apply (elim conjE)
  apply (rule returns_and_then, rule returns_weaken[OF node_groups_new_returns], elim conjE)
  apply (rule returns_and_then, rule returns_weaken, rule on_group_tree_returns)
    apply (simp add: nth_append_tail)
   apply (rule group_body_fst)
  apply (elim conjE)
  apply (rule returns_and_then, rule returns_weaken, rule on_material_tree_returns)
    apply (simp add: update_material_fields)
   apply (simp add: group_interface_def nth_append_tail update_append_tail update_material_tree
      main_chain_fst[unfolded One_nat_def])
  apply (elim conjE)
  apply (rule returns_and_then, rule returns_weaken[OF node_groups_new_returns], elim conjE)
  apply (rule returns_and_then, rule returns_weaken, rule on_group_tree_returns)
    apply (simp add: nth_append_tail update_append_tail)
   apply (rule group_body_fst)
  apply (elim conjE)
  apply (rule returns_and_then, rule returns_weaken, rule on_material_tree_returns)
    apply (simp add: update_material_fields)
   apply (simp add: group_interface_def nth_append_tail update_append_tail update_material_tree
      color_chain_fst[unfolded One_nat_def])
  apply (elim conjE)
  apply (simp add: index_of_material_names update_material_names update_material_fields
      untouched_simps returns_def starscape_groups_def Let_def update_object_map
      nth_append_tail update_append_tail split: option.splits)
  done


subsection \<open>The stages after the material\<close>

lemma untouched_fields:
  "untouched s' = untouched s \<Longrightarrow>
     scene_name s' = scene_name s \<and> scene_camera s' = scene_camera s \<and>
     context_world s' = context_world s"
  by (simp add: untouched_def)

lemma star_field_stage_untouched:
  "untouched (snd (star_field_stage rnd seed p s)) = untouched s"
  by (simp add: untouched_def star_field_stage_other)

lemma template_stage_untouched: "untouched (snd (template_stage s)) = untouched s"
  by (simp add: untouched_def template_stage_other)

lemma star_field_stage_value:
  assumes "star_field_stage rnd seed p s = (Inr k, s1)"
  shows "index_of (\<lambda>ob. object_name ob = ''Starscape'') (objects s1) = Some k"
proof -
  let ?c = "create_or_reuse_mesh_object ''Starscape'' (seeded rnd seed p s)"
  from assms obtain a s0 where c: "?c = (Inr a, s0)"
    and r: "and_then (from_pydata a
         (spec_points rnd (seed (random_seed p)) (hemisphere p)
            (star_count (star_density p) (hemisphere p))) [] [] s0)
       (\<lambda>_ s. (Inr a, s)) = (Inr k, s1)"
    unfolding star_field_stage_eq by (rule and_thenE)
  from r obtain u where f: "from_pydata a
         (spec_points rnd (seed (random_seed p)) (hemisphere p)
            (star_count (star_density p) (hemisphere p))) [] [] s0 = (Inr u, s1)" and k: "k = a"
    by (auto elim!: and_thenE)
  have "objects s1 = objects s0" by (metis from_pydata_other(1) snd_conv f)
  moreover have "index_of (\<lambda>ob. object_name ob = ''Starscape'') (objects s0) = Some a"
    using create_index[of "''Starscape''" "seeded rnd seed p s"] create_fst[of "''Starscape''" "seeded rnd seed p s"] c
    by simp
  ultimately show ?thesis using k by simp
qed

lemma template_stage_value:
  assumes "template_stage s = (Inr k, s1)"
  shows "index_of (\<lambda>ob. object_name ob = ''Star_Template'') (objects s1) = Some k"
proof -
  let ?c = "create_or_reuse_mesh_object ''Star_Template'' s"
  from assms obtain a s0 where c: "?c = (Inr a, s0)"
    and r: "and_then (from_pydata a template_vertices [(0, 1), (0, 2), (1, 2)] [[0, 1, 2]] s0)
       (\<lambda>_ s. (Inr a, s)) = (Inr k, s1)"
    unfolding template_stage_def by (rule and_thenE)
  from r obtain u where
    f: "from_pydata a template_vertices [(0, 1), (0, 2), (1, 2)] [[0, 1, 2]] s0 = (Inr u, s1)"
    and k: "k = a"
    by (auto elim!: and_thenE)
  have "objects s1 = objects s0" by (metis from_pydata_other(1) snd_conv f)
  moreover have "index_of (\<lambda>ob. object_name ob = ''Star_Template'') (objects s0) = Some a"
    using create_index[of "''Star_Template''" s] create_fst[of "''Star_Template''" s] c
    by simp
  ultimately show ?thesis using k by simp
qed

lemma index_of_other_name:
  assumes "n \<noteq> n'"
  shows "index_of (\<lambda>ob. object_name ob = n)
           (case index_of (\<lambda>ob. object_name ob = n') obs of
              Some j \<Rightarrow> obs | None \<Rightarrow> obs @ [new_object n' m]) =
         index_of (\<lambda>ob. object_name ob = n) obs"
proof (cases "index_of (\<lambda>ob. object_name ob = n') obs")
  case None
  show ?thesis
  proof (cases "index_of (\<lambda>ob. object_name ob = n) obs")
    case None
    then show ?thesis using assms \<open>index_of (\<lambda>ob. object_name ob = n') obs = None\<close>
      by (simp add: index_of_append_None new_object_def)
  next
    case (Some k)
    then show ?thesis using \<open>index_of (\<lambda>ob. object_name ob = n') obs = None\<close>
      by (simp add: index_of_append_Some)
  qed
next
  case (Some j)
  then show ?thesis by simp
qed


lemma keeps_trans: "keeps s s1 \<Longrightarrow> keeps s1 s2 \<Longrightarrow> keeps s s2"
  by (simp add: keeps_def)

lemma keeps_update_object:
  assumes "\<And>ob. object_name (f ob) = object_name ob" "\<And>ob. data (f ob) = data ob"
  shows "keeps s (update_object k f s)"
  using assms by (simp add: keeps_def update_object_map) (simp add: update_object_def)

lemma keeps_refl: "keeps s s"
  by (simp add: keeps_def)

lemma keeps_update_object_after:
  assumes "keeps s s1" "\<And>ob. object_name (f ob) = object_name ob" "\<And>ob. data (f ob) = data ob"
  shows "keeps s (update_object k f s1)"
  using assms(1) keeps_update_object[of f s1 k, OF assms(2,3)] by (rule keeps_trans)

lemma constraints_update_object:
  assumes "\<And>ob. constraints (f ob) = constraints ob"
  shows "map constraints (objects (update_object k f s)) = map constraints (objects s)"
  using assms by (rule update_object_map)

lemma update_object_context_world: "context_world (update_object k f s) = context_world s"
  by (simp add: update_object_def)

lemma constraint_stage_fst: "fst (constraint_stage p cam k s) = Inr ()"
  by (simp add: constraint_stage_def and_then_Inr)

lemma constraint_stage_keeps: "keeps s (snd (constraint_stage p cam k s))"
proof (cases "camera_lock p")
  case True
  have "keeps s (update_object k (\<lambda>ob. ob\<lparr>constraints := constraints ob @
             [\<lparr>constraint_type = ''COPY_LOCATION'', constraint_target = Some (camera_name cam)\<rparr>]\<rparr>)
          (update_object k (\<lambda>ob. ob\<lparr>constraints := []\<rparr>) s))"
    by (intro keeps_update_object_after keeps_refl) simp_all
  then show ?thesis using True by (simp add: constraint_stage_def and_then_Inr)
next
  case False
  then show ?thesis by (simp add: constraint_stage_def and_then_Inr keeps_update_object)
qed

lemma constraint_stage_world:
  "context_world (snd (constraint_stage p cam k s)) = context_world s"
  by (simp add: constraint_stage_def and_then_Inr update_object_context_world)

lemma constraint_stage_constraints:
  assumes "k < length (objects s)"
  shows "constraints (objects (snd (constraint_stage p cam k s)) ! k) =
     (if camera_lock p
      then [\<lparr>constraint_type = ''COPY_LOCATION'', constraint_target = Some (camera_name cam)\<rparr>]
      else [])"
  using assms by (simp add: constraint_stage_def and_then_Inr update_object_def)

lemma stars_driver_stage_facts:
  "fst (stars_driver_stage cam k s) = Inr ()"
  "keeps s (snd (stars_driver_stage cam k s))"
  "map constraints (objects (snd (stars_driver_stage cam k s))) = map constraints (objects s)"
  "context_world (snd (stars_driver_stage cam k s)) = context_world s"
proof -
  show "fst (stars_driver_stage cam k s) = Inr ()" by (simp add: stars_driver_stage_def)
  show "keeps s (snd (stars_driver_stage cam k s))"
    unfolding stars_driver_stage_def snd_conv
    by (rule keeps_update_object) (simp_all only: driver_body_fields)
  show "map constraints (objects (snd (stars_driver_stage cam k s))) = map constraints (objects s)"
    unfolding stars_driver_stage_def snd_conv
    by (rule constraints_update_object) (simp only: driver_body_fields)
  show "context_world (snd (stars_driver_stage cam k s)) = context_world s"
    unfolding stars_driver_stage_def snd_conv by (rule update_object_context_world)
qed

lemma template_driver_stage_facts:
  "fst (template_driver_stage cam k s) = Inr ()"
  "keeps s (snd (template_driver_stage cam k s))"
  "map constraints (objects (snd (template_driver_stage cam k s))) = map constraints (objects s)"
  "context_world (snd (template_driver_stage cam k s)) = context_world s"
proof -
  show "fst (template_driver_stage cam k s) = Inr ()" by (simp add: template_driver_stage_def)
  show "keeps s (snd (template_driver_stage cam k s))"
    unfolding template_driver_stage_def snd_conv
    by (rule keeps_update_object) (simp_all only: driver_body_fields)
  show "map constraints (objects (snd (template_driver_stage cam k s))) =
      map constraints (objects s)"
    unfolding template_driver_stage_def snd_conv
    by (rule constraints_update_object) (simp only: driver_body_fields)
  show "context_world (snd (template_driver_stage cam k s)) = context_world s"
    unfolding template_driver_stage_def snd_conv by (rule update_object_context_world)
qed

lemma relationship_stage_facts:
  "fst (relationship_stage k t s) = Inr ()"
  "keeps s (snd (relationship_stage k t s))"
  "map constraints (objects (snd (relationship_stage k t s))) = map constraints (objects s)"
  "context_world (snd (relationship_stage k t s)) = context_world s"
proof -
  show "fst (relationship_stage k t s) = Inr ()"
    by (simp add: relationship_stage_def and_then_Inr)
  show "keeps s (snd (relationship_stage k t s))"
    unfolding relationship_stage_def and_then_Inr snd_conv
    by (intro keeps_update_object_after keeps_refl) simp_all
  show "map constraints (objects (snd (relationship_stage k t s))) = map constraints (objects s)"
    by (simp add: relationship_stage_def and_then_Inr constraints_update_object)
  show "context_world (snd (relationship_stage k t s)) = context_world s"
    by (simp add: relationship_stage_def and_then_Inr update_object_context_world)
qed

lemma world_stage_facts:
  "(clear_world_bg p \<longrightarrow> context_world s \<noteq> None) \<Longrightarrow> fst (world_stage p s) = Inr ()"
  "keeps s (snd (world_stage p s))"
  "map constraints (objects (snd (world_stage p s))) = map constraints (objects s)"
  "(context_world (snd (world_stage p s)) = None) = (context_world s = None)"
  by (auto simp: world_stage_def keeps_def split: option.splits)


lemma keeps_index:
  "keeps s s' \<Longrightarrow>
     index_of (\<lambda>ob. object_name ob = n) (objects s') = index_of (\<lambda>ob. object_name ob = n) (objects s)"
  by (rule index_of_names) (simp add: keeps_def)

lemma map_eq_nth:
  assumes "map g xs = map g ys" "k < length ys"
  shows "g (xs ! k) = g (ys ! k)"
proof -
  have "length xs = length ys" using assms(1) by (rule map_eq_imp_length_eq)
  then have "map g xs ! k = g (xs ! k)" "map g ys ! k = g (ys ! k)" using assms(2) by simp_all
  then show ?thesis using assms(1) by simp
qed

lemma generate_success_stages:
  assumes "generate_starscape rnd seed p s = (Inr True, s')"
  obtains cam k s1 t s2 s3 s4 s5 s6 s7 where
    "scene_camera s = Some cam" "camera_type cam = ''PERSP''"
    "star_field_stage rnd seed p s = (Inr k, s1)"
    "template_stage s1 = (Inr t, s2)"
    "material_stage p t s2 = (Inr (), s3)"
    "constraint_stage p cam k s3 = (Inr (), s4)"
    "stars_driver_stage cam k s4 = (Inr (), s5)"
    "template_driver_stage cam t s5 = (Inr (), s6)"
    "relationship_stage k t s6 = (Inr (), s7)"
    "world_stage p s7 = (Inr (), s')"
proof -
  from assms obtain cam where cam: "scene_camera s = Some cam" "camera_type cam = ''PERSP''"
    and chain: "and_then (star_field_stage rnd seed p s) (\<lambda>stars_obj s.
            and_then (template_stage s) (\<lambda>template_obj s.
            and_then (material_stage p template_obj s) (\<lambda>_ s.
            and_then (constraint_stage p cam stars_obj s) (\<lambda>_ s.
            and_then (stars_driver_stage cam stars_obj s) (\<lambda>_ s.
            and_then (template_driver_stage cam template_obj s) (\<lambda>_ s.
            and_then (relationship_stage stars_obj template_obj s) (\<lambda>_ s.
            and_then (world_stage p s) (\<lambda>_ s.
            (Inr True, s))))))))) = (Inr True, s')"
    by (auto simp: generate_starscape_def split: option.splits if_splits)
  from chain show ?thesis
    by (elim and_thenE) (auto intro: that[OF cam])
qed


lemma snd_eq: "r = (a, s) \<Longrightarrow> s = snd r"
  by simp

lemma generate_constraints:
  assumes "generate_starscape rnd seed p s = (Inr True, s')"
  shows "\<exists>k. index_of (\<lambda>ob. object_name ob = ''Starscape'') (objects s') = Some k
    \<and> k < length (objects s')
    \<and> constraints (objects s' ! k) =
        (if camera_lock p
         then [\<lparr>constraint_type = ''COPY_LOCATION'',
                 constraint_target = map_option camera_name (scene_camera s)\<rparr>]
         else [])"
proof -
  from assms obtain cam k s1 t s2 s3 s4 s5 s6 s7 where
    cam: "scene_camera s = Some cam" and
    st1: "star_field_stage rnd seed p s = (Inr k, s1)" and
    st2: "template_stage s1 = (Inr t, s2)" and
    st3: "material_stage p t s2 = (Inr (), s3)" and
    st4: "constraint_stage p cam k s3 = (Inr (), s4)" and
    st5: "stars_driver_stage cam k s4 = (Inr (), s5)" and
    st6: "template_driver_stage cam t s5 = (Inr (), s6)" and
    st7: "relationship_stage k t s6 = (Inr (), s7)" and
    st8: "world_stage p s7 = (Inr (), s')"
    by (rule generate_success_stages)
  let ?P = "\<lambda>ob. object_name ob = ''Starscape''"
  have i1: "index_of ?P (objects s1) = Some k" using st1 by (rule star_field_stage_value)
  have "objects s2 = objects (snd (template_stage s1))" using st2 by simp
  then have i2: "index_of ?P (objects s2) = Some k"
    using i1 index_of_other_name[of "''Starscape''" "''Star_Template''" "objects s1"]
    by (simp add: template_stage_objects)
  have m3: "map object_name (objects s3) = map object_name (objects s2)"
    using returns_eq[OF material_stage_returns st3] by simp
  have i3: "index_of ?P (objects s3) = Some k"
    using i2 index_of_names[OF m3, of "''Starscape''"] by simp
  then have k3: "k < length (objects s3)" by (simp add: index_of_Some)
  have s4: "s4 = snd (constraint_stage p cam k s3)" using st4 by simp
  have s5: "s5 = snd (stars_driver_stage cam k s4)" using st5 by simp
  have s6: "s6 = snd (template_driver_stage cam t s5)" using st6 by simp
  have s7: "s7 = snd (relationship_stage k t s6)" using st7 by simp
  have s8: "s' = snd (world_stage p s7)" using st8 by simp
  have k4: "keeps s3 s4" unfolding s4 by (rule constraint_stage_keeps)
  have k5: "keeps s4 s5" unfolding s5 by (rule stars_driver_stage_facts)
  have k6: "keeps s5 s6" unfolding s6 by (rule template_driver_stage_facts)
  have k7: "keeps s6 s7" unfolding s7 by (rule relationship_stage_facts)
  have k8: "keeps s7 s'" unfolding s8 by (rule world_stage_facts)
  have k38: "keeps s3 s'"
    by (rule keeps_trans[OF keeps_trans[OF keeps_trans[OF keeps_trans[OF k4 k5] k6] k7] k8])
  have i8: "index_of ?P (objects s') = Some k" using keeps_index[OF k38] i3 by simp
  have c4: "constraints (objects s4 ! k) =
      (if camera_lock p
       then [\<lparr>constraint_type = ''COPY_LOCATION'', constraint_target = Some (camera_name cam)\<rparr>]
       else [])"
    unfolding s4 using k3 by (rule constraint_stage_constraints)
  have l4: "k < length (objects s4)"
    using k3 k4 map_eq_imp_length_eq[of object_name "objects s4" object_name "objects s3"]
    by (simp add: keeps_def)
  have c5: "map constraints (objects s5) = map constraints (objects s4)"
    unfolding s5 by (rule stars_driver_stage_facts)
  have c6: "map constraints (objects s6) = map constraints (objects s5)"
    unfolding s6 by (rule template_driver_stage_facts)
  have c7: "map constraints (objects s7) = map constraints (objects s6)"
    unfolding s7 by (rule relationship_stage_facts)
  have c8: "map constraints (objects s') = map constraints (objects s7)"
    unfolding s8 by (rule world_stage_facts)
  have "map constraints (objects s') = map constraints (objects s4)"
    using c5 c6 c7 c8 by simp
  then have "constraints (objects s' ! k) = constraints (objects s4 ! k)"
    using l4 by (rule map_eq_nth)
  then show ?thesis using c4 i8 cam index_of_Some[OF i8] by simp
qed




lemma star_field_stage_meshes_length:
  "length (meshes s) \<le> length (meshes (snd (star_field_stage rnd seed p s)))"
proof -
  have "length (map mesh_name (meshes s)) \<le>
      length (map mesh_name (meshes (snd (star_field_stage rnd seed p s))))"
    unfolding star_field_stage_mesh_names by (simp split: option.splits)
  then show ?thesis by simp
qed

lemma star_field_stage_template_index:
  "index_of (\<lambda>ob. object_name ob = ''Star_Template'') (objects (snd (star_field_stage rnd seed p s))) =
     index_of (\<lambda>ob. object_name ob = ''Star_Template'') (objects s)"
  unfolding star_field_stage_objects
  by (rule index_of_other_name) simp

lemma star_field_stage_old_objects:
  "k < length (objects s) \<Longrightarrow> objects (snd (star_field_stage rnd seed p s)) ! k = objects s ! k"
  unfolding star_field_stage_objects by (simp add: nth_append split: option.splits)


lemma star_field_stage_template_ok:
  assumes "mesh_object_ok ''Star_Template'' s"
  shows "mesh_object_ok ''Star_Template'' (snd (star_field_stage rnd seed p s))"
proof (cases "index_of (\<lambda>ob. object_name ob = ''Star_Template'') (objects s)")
  case None
  then show ?thesis by (simp add: mesh_object_ok_def star_field_stage_template_index)
next
  case (Some k)
  then have k: "k < length (objects s)" by (simp add: index_of_Some)
  from assms Some obtain m where m: "data (objects s ! k) = Some m" "m < length (meshes s)"
    by (auto simp: mesh_object_ok_def split: option.splits)
  then show ?thesis
    using Some star_field_stage_meshes_length[of s rnd seed p]
    by (simp add: mesh_object_ok_def star_field_stage_template_index
        star_field_stage_old_objects[OF k])
qed



lemma material_stage_eq:
  "material_stage p t s = (Inr (), snd (material_stage p t s))"
  using returnsD[OF material_stage_returns[of p t s]] by auto

lemma pair_eqI: "fst r = a \<Longrightarrow> r = (a, snd r)"
  by (cases r) simp

lemma generate_total:
  assumes cam: "scene_camera s = Some cam" "camera_type cam = ''PERSP''"
    and ok: "mesh_object_ok ''Starscape'' s" "mesh_object_ok ''Star_Template'' s"
    and world: "clear_world_bg p \<longrightarrow> context_world s \<noteq> None"
  shows "fst (generate_starscape rnd seed p s) = Inr True"
proof -
  define k where "k = (case index_of (\<lambda>ob. object_name ob = ''Starscape'') (objects s) of
            Some j \<Rightarrow> j | None \<Rightarrow> length (objects s))"
  define s1 where "s1 = snd (star_field_stage rnd seed p s)"
  define t where "t = (case index_of (\<lambda>ob. object_name ob = ''Star_Template'') (objects s1) of
            Some j \<Rightarrow> j | None \<Rightarrow> length (objects s1))"
  define s2 where "s2 = snd (template_stage s1)"
  define s3 where "s3 = snd (material_stage p t s2)"
  define s4 where "s4 = snd (constraint_stage p cam k s3)"
  define s5 where "s5 = snd (stars_driver_stage cam k s4)"
  define s6 where "s6 = snd (template_driver_stage cam t s5)"
  define s7 where "s7 = snd (relationship_stage k t s6)"
  have e1: "star_field_stage rnd seed p s = (Inr k, s1)"
    unfolding s1_def k_def by (rule pair_eqI[OF star_field_stage_fst[OF ok(1)]])
  have ok1: "mesh_object_ok ''Star_Template'' s1"
    unfolding s1_def by (rule star_field_stage_template_ok[OF ok(2)])
  have e2: "template_stage s1 = (Inr t, s2)"
    unfolding s2_def t_def by (rule pair_eqI[OF template_stage_fst[OF ok1]])
  have e3: "material_stage p t s2 = (Inr (), s3)"
    unfolding s3_def by (rule material_stage_eq)
  have e4: "constraint_stage p cam k s3 = (Inr (), s4)"
    unfolding s4_def by (rule pair_eqI[OF constraint_stage_fst])
  have e5: "stars_driver_stage cam k s4 = (Inr (), s5)"
    unfolding s5_def by (rule pair_eqI[OF stars_driver_stage_facts(1)])
  have e6: "template_driver_stage cam t s5 = (Inr (), s6)"
    unfolding s6_def by (rule pair_eqI[OF template_driver_stage_facts(1)])
  have e7: "relationship_stage k t s6 = (Inr (), s7)"
    unfolding s7_def by (rule pair_eqI[OF relationship_stage_facts(1)])
  have w1: "context_world s1 = context_world s"
    unfolding s1_def by (rule star_field_stage_other)
  have w2: "context_world s2 = context_world s1"
    unfolding s2_def by (rule template_stage_other)
  have w3: "context_world s3 = context_world s2"
    using returns_eq[OF material_stage_returns e3] by (simp add: untouched_def)
  have w4: "context_world s4 = context_world s3"
    unfolding s4_def by (rule constraint_stage_world)
  have w5: "context_world s5 = context_world s4"
    unfolding s5_def by (rule stars_driver_stage_facts)
  have w6: "context_world s6 = context_world s5"
    unfolding s6_def by (rule template_driver_stage_facts)
  have w7: "context_world s7 = context_world s6"
    unfolding s7_def by (rule relationship_stage_facts)
  have "clear_world_bg p \<longrightarrow> context_world s7 \<noteq> None"
    using world w1 w2 w3 w4 w5 w6 w7 by simp
  then have e8: "world_stage p s7 = (Inr (), snd (world_stage p s7))"
    by (rule pair_eqI[OF world_stage_facts(1)])
  show ?thesis
    by (simp add: generate_starscape_def cam and_then_fst_snd[where r = "star_field_stage rnd seed p s"] e1)
       (simp add: e2 e3 e4 e5 e6 e7 and_then_Inr, subst e8, simp add: and_then_Inr)
qed


lemma mesh_object_ok_cong2:
  assumes "map object_name (objects s') = map object_name (objects s)"
    "map data (objects s') = map data (objects s)"
    "length (meshes s') = length (meshes s)"
  shows "mesh_object_ok n s' = mesh_object_ok n s"
proof -
  have i: "index_of (\<lambda>ob. object_name ob = n) (objects s') =
      index_of (\<lambda>ob. object_name ob = n) (objects s)"
    using assms(1) by (rule index_of_names)
  show ?thesis
  proof (cases "index_of (\<lambda>ob. object_name ob = n) (objects s)")
    case None
    then show ?thesis using i by (simp add: mesh_object_ok_def)
  next
    case (Some k)
    then have "k < length (objects s)" by (simp add: index_of_Some)
    then have "data (objects s' ! k) = data (objects s ! k)"
      using assms(2) by (rule map_eq_nth[rotated])
    then show ?thesis using i Some assms(3)
      by (simp add: mesh_object_ok_def cong: option.case_cong)
  qed
qed

lemma keeps_mesh_object_ok: "keeps s s' \<Longrightarrow> mesh_object_ok n s' = mesh_object_ok n s"
  by (rule mesh_object_ok_cong2) (simp_all add: keeps_def)

lemma from_pydata_Inr:
  assumes "from_pydata k vs es fs s = (Inr u, s')"
  shows "\<exists>m. data (objects s ! k) = Some m \<and> m < length (meshes s)"
  using assms by (auto simp: from_pydata_def split: option.splits if_splits)

lemma stage_value_ok:
  assumes c: "create_or_reuse_mesh_object n s = (Inr a, s0)"
    and f: "from_pydata a vs es fs s0 = (Inr u, s1)"
  shows "mesh_object_ok n s1"
proof -
  have i0: "index_of (\<lambda>ob. object_name ob = n) (objects s0) = Some a"
    using create_index[of n s] create_fst[of n s] c by simp
  have o: "objects s1 = objects s0" by (metis from_pydata_other(1) snd_conv f)
  have l: "length (meshes s1) = length (meshes s0)" by (metis from_pydata_other(8) snd_conv f)
  from from_pydata_Inr[OF f] obtain m where "data (objects s0 ! a) = Some m" "m < length (meshes s0)"
    by auto
  then show ?thesis using i0 o l by (simp add: mesh_object_ok_def)
qed

lemma star_field_stage_ok:
  assumes "star_field_stage rnd seed p s = (Inr k, s1)"
  shows "mesh_object_ok ''Starscape'' s1"
proof -
  from assms obtain a s0 where c: "create_or_reuse_mesh_object ''Starscape'' (seeded rnd seed p s) = (Inr a, s0)"
    and r: "and_then (from_pydata a
         (spec_points rnd (seed (random_seed p)) (hemisphere p)
            (star_count (star_density p) (hemisphere p))) [] [] s0)
       (\<lambda>_ s. (Inr a, s)) = (Inr k, s1)"
    unfolding star_field_stage_eq by (rule and_thenE)
  from r obtain u where f: "from_pydata a
         (spec_points rnd (seed (random_seed p)) (hemisphere p)
            (star_count (star_density p) (hemisphere p))) [] [] s0 = (Inr u, s1)"
    by (auto elim!: and_thenE)
  from c f show ?thesis by (rule stage_value_ok)
qed

lemma template_stage_ok:
  assumes "template_stage s = (Inr k, s1)"
  shows "mesh_object_ok ''Star_Template'' s1"
proof -
  from assms obtain a s0 where c: "create_or_reuse_mesh_object ''Star_Template'' s = (Inr a, s0)"
    and r: "and_then (from_pydata a template_vertices [(0, 1), (0, 2), (1, 2)] [[0, 1, 2]] s0)
       (\<lambda>_ s. (Inr a, s)) = (Inr k, s1)"
    unfolding template_stage_def by (rule and_thenE)
  from r obtain u where
    f: "from_pydata a template_vertices [(0, 1), (0, 2), (1, 2)] [[0, 1, 2]] s0 = (Inr u, s1)"
    by (auto elim!: and_thenE)
  from c f show ?thesis by (rule stage_value_ok)
qed

lemma template_stage_mesh_names:
  "map mesh_name (meshes (snd (template_stage s))) =
     (case index_of (\<lambda>m. mesh_name m = ''Star_Template_mesh'') (meshes s) of
        Some i \<Rightarrow> map mesh_name (meshes s)
      | None \<Rightarrow> map mesh_name (meshes s) @ [''Star_Template_mesh''])"
  unfolding template_stage_def and_then_fst_snd[OF create_fst]
  by (rule and_then_frame)
     (simp_all add: from_pydata_other create_mesh_names cong: option.case_cong)

lemma template_stage_meshes_length:
  "length (meshes s) \<le> length (meshes (snd (template_stage s)))"
proof -
  have "length (map mesh_name (meshes s)) \<le> length (map mesh_name (meshes (snd (template_stage s))))"
    unfolding template_stage_mesh_names by (simp split: option.splits)
  then show ?thesis by simp
qed

lemma template_stage_old_objects:
  "k < length (objects s) \<Longrightarrow> objects (snd (template_stage s)) ! k = objects s ! k"
  unfolding template_stage_objects by (simp add: nth_append split: option.splits)

lemma template_stage_starscape_ok:
  assumes "mesh_object_ok ''Starscape'' s"
  shows "mesh_object_ok ''Starscape'' (snd (template_stage s))"
proof -
  have i: "index_of (\<lambda>ob. object_name ob = ''Starscape'') (objects (snd (template_stage s))) =
      index_of (\<lambda>ob. object_name ob = ''Starscape'') (objects s)"
    unfolding template_stage_objects by (rule index_of_other_name) simp
  show ?thesis
  proof (cases "index_of (\<lambda>ob. object_name ob = ''Starscape'') (objects s)")
    case None
    then show ?thesis using i by (simp add: mesh_object_ok_def)
  next
    case (Some k)
    then have k: "k < length (objects s)" by (simp add: index_of_Some)
    from assms Some obtain m where m: "data (objects s ! k) = Some m" "m < length (meshes s)"
      by (auto simp: mesh_object_ok_def split: option.splits)
    then show ?thesis
      using Some i template_stage_meshes_length[of s]
      by (simp add: mesh_object_ok_def template_stage_old_objects[OF k])
  qed
qed


lemma generate_registries:
  assumes "generate_starscape rnd seed p s = (Inr True, s')"
  shows "node_groups s' = node_groups s @ starscape_groups (map group_name (node_groups s))"
    and "map object_name (objects s') =
      map object_name (objects s)
      @ (case index_of (\<lambda>ob. object_name ob = ''Starscape'') (objects s) of
           Some _ \<Rightarrow> [] | None \<Rightarrow> [''Starscape''])
      @ (case index_of (\<lambda>ob. object_name ob = ''Star_Template'') (objects s) of
           Some _ \<Rightarrow> [] | None \<Rightarrow> [''Star_Template''])"
    and "map material_name (materials s') =
      (case index_of (\<lambda>m. material_name m = ''Star Shader'') (materials s) of
         Some _ \<Rightarrow> map material_name (materials s)
       | None \<Rightarrow> map material_name (materials s) @ [''Star Shader''])"
    and "mesh_object_ok ''Starscape'' s'" and "mesh_object_ok ''Star_Template'' s'"
    and "scene_camera s' = scene_camera s"
    and "(context_world s' = None) = (context_world s = None)"
proof -
  from assms obtain cam k s1 t s2 s3 s4 s5 s6 s7 where
    cam: "scene_camera s = Some cam" and
    st1: "star_field_stage rnd seed p s = (Inr k, s1)" and
    st2: "template_stage s1 = (Inr t, s2)" and
    st3: "material_stage p t s2 = (Inr (), s3)" and
    st4: "constraint_stage p cam k s3 = (Inr (), s4)" and
    st5: "stars_driver_stage cam k s4 = (Inr (), s5)" and
    st6: "template_driver_stage cam t s5 = (Inr (), s6)" and
    st7: "relationship_stage k t s6 = (Inr (), s7)" and
    st8: "world_stage p s7 = (Inr (), s')"
    by (rule generate_success_stages)
  have s1: "s1 = snd (star_field_stage rnd seed p s)" using st1 by simp
  have s2: "s2 = snd (template_stage s1)" using st2 by simp
  have s4: "s4 = snd (constraint_stage p cam k s3)" using st4 by simp
  have s5: "s5 = snd (stars_driver_stage cam k s4)" using st5 by simp
  have s6: "s6 = snd (template_driver_stage cam t s5)" using st6 by simp
  have s7: "s7 = snd (relationship_stage k t s6)" using st7 by simp
  have s8: "s' = snd (world_stage p s7)" using st8 by simp
  note m3 = returns_eq[OF material_stage_returns st3]
  have k4: "keeps s3 s4" unfolding s4 by (rule constraint_stage_keeps)
  have k5: "keeps s4 s5" unfolding s5 by (rule stars_driver_stage_facts)
  have k6: "keeps s5 s6" unfolding s6 by (rule template_driver_stage_facts)
  have k7: "keeps s6 s7" unfolding s7 by (rule relationship_stage_facts)
  have k8: "keeps s7 s'" unfolding s8 by (rule world_stage_facts)
  have k38: "keeps s3 s'"
    by (rule keeps_trans[OF keeps_trans[OF keeps_trans[OF keeps_trans[OF k4 k5] k6] k7] k8])
  have g1: "node_groups s1 = node_groups s" unfolding s1 by (rule star_field_stage_other)
  have g2: "node_groups s2 = node_groups s1" unfolding s2 by (rule template_stage_other)
  show "node_groups s' = node_groups s @ starscape_groups (map group_name (node_groups s))"
    using m3 g1 g2 k38 by (simp add: keeps_def)
  have t1: "index_of (\<lambda>ob. object_name ob = ''Star_Template'') (objects s1) =
      index_of (\<lambda>ob. object_name ob = ''Star_Template'') (objects s)"
    unfolding s1 by (rule star_field_stage_template_index)
  have o1: "map object_name (objects s1) = map object_name (objects s)
      @ (case index_of (\<lambda>ob. object_name ob = ''Starscape'') (objects s) of
           Some _ \<Rightarrow> [] | None \<Rightarrow> [''Starscape''])"
    unfolding s1 star_field_stage_objects by (simp add: new_object_def split: option.splits)
  have o2: "map object_name (objects s2) = map object_name (objects s1)
      @ (case index_of (\<lambda>ob. object_name ob = ''Star_Template'') (objects s1) of
           Some _ \<Rightarrow> [] | None \<Rightarrow> [''Star_Template''])"
    unfolding s2 template_stage_objects by (simp add: new_object_def split: option.splits)
  show "map object_name (objects s') =
      map object_name (objects s)
      @ (case index_of (\<lambda>ob. object_name ob = ''Starscape'') (objects s) of
           Some _ \<Rightarrow> [] | None \<Rightarrow> [''Starscape''])
      @ (case index_of (\<lambda>ob. object_name ob = ''Star_Template'') (objects s) of
           Some _ \<Rightarrow> [] | None \<Rightarrow> [''Star_Template''])"
    using m3 k38 o1 o2 t1 by (simp add: keeps_def)
  have a1: "materials s1 = materials s" unfolding s1 by (rule star_field_stage_other)
  have a2: "materials s2 = materials s1" unfolding s2 by (rule template_stage_other)
  show "map material_name (materials s') =
      (case index_of (\<lambda>m. material_name m = ''Star Shader'') (materials s) of
         Some _ \<Rightarrow> map material_name (materials s)
       | None \<Rightarrow> map material_name (materials s) @ [''Star Shader''])"
    using m3 k38 a1 a2 by (simp add: keeps_def cong: option.case_cong)
  have ok1: "mesh_object_ok ''Starscape'' s1" using st1 by (rule star_field_stage_ok)
  have ok2: "mesh_object_ok ''Starscape'' s2" unfolding s2 using ok1 by (rule template_stage_starscape_ok)
  have ok2': "mesh_object_ok ''Star_Template'' s2" using st2 by (rule template_stage_ok)
  have c3: "mesh_object_ok n s3 = mesh_object_ok n s2" for n
    by (insert m3, rule mesh_object_ok_cong2) simp_all
  show "mesh_object_ok ''Starscape'' s'" using ok2 c3 keeps_mesh_object_ok[OF k38] by simp
  show "mesh_object_ok ''Star_Template'' s'" using ok2' c3 keeps_mesh_object_ok[OF k38] by simp
  have u1: "untouched s1 = untouched s" unfolding s1 by (rule star_field_stage_untouched)
  have u2: "untouched s2 = untouched s1" unfolding s2 by (rule template_stage_untouched)
  have u3: "untouched s3 = untouched s" using m3 u1 u2 by simp
  show "scene_camera s' = scene_camera s"
    using k38 untouched_fields[OF u3] by (simp add: keeps_def)
  have w4: "context_world s4 = context_world s3"
    unfolding s4 by (rule constraint_stage_world)
  have w5: "context_world s5 = context_world s4"
    unfolding s5 by (rule stars_driver_stage_facts)
  have w6: "context_world s6 = context_world s5"
    unfolding s6 by (rule template_driver_stage_facts)
  have w7: "context_world s7 = context_world s6"
    unfolding s7 by (rule relationship_stage_facts)
  have w8: "(context_world s' = None) = (context_world s7 = None)"
    unfolding s8 by (rule world_stage_facts)
  show "(context_world s' = None) = (context_world s = None)"
    using w4 w5 w6 w7 w8 untouched_fields[OF u3] by simp
qed


subsection \<open>The camera\<close>

text \<open>
  Claim C2. When the scene has no camera, or its camera is not a perspective camera,
  \<^verbatim>\<open>generate_starscape\<close> returns \<^verbatim>\<open>False\<close> without raising, and the session is
  as before the call: no mesh, object, material, node group, constraint or driver is
  created or changed, and the random generator is not seeded.
\<close>

theorem no_perspective_camera:
  assumes "scene_camera s = None \<or> (\<exists>cam. scene_camera s = Some cam \<and> camera_type cam \<noteq> ''PERSP'')"
  shows "generate_starscape rnd seed p s = (Inr False, s)"
  using assms by (auto simp: generate_starscape_def)

text \<open>A session without a camera, and one with an orthographic camera.\<close>

theorem no_perspective_camera_witness:
  "generate_starscape counting_rnd nat (props_of 2 True) (new_session None 0)
     = (Inr False, new_session None 0)
   \<and> generate_starscape counting_rnd nat (props_of 2 True)
       (new_session (Some (camera_of_type ''ORTHO'')) 0)
     = (Inr False, new_session (Some (camera_of_type ''ORTHO'')) 0)"
  using no_perspective_camera[of "new_session None 0" counting_rnd nat "props_of 2 True"]
    no_perspective_camera[of "new_session (Some (camera_of_type ''ORTHO'')) 0"
      counting_rnd nat "props_of 2 True"]
  by (simp add: new_session_def camera_of_type_def)

lemma new_session_total:
  "fst (generate_starscape rnd seed p (new_session (Some (camera_of_type ''PERSP'')) g)) = Inr True"
  by (rule generate_total[where cam = "camera_of_type ''PERSP''"])
     (simp_all add: new_session_def camera_of_type_def mesh_object_ok_def)

text \<open>
  Claim C10. After every call that returns \<^verbatim>\<open>True\<close>, the object
  \<^verbatim>\<open>Starscape\<close> has exactly one constraint, \<^verbatim>\<open>COPY_LOCATION\<close> with the scene's
  camera as its target, when \<^verbatim>\<open>camera_lock\<close> is set, and no constraint when it is
  not, whatever constraints the object had before the call.
\<close>

theorem camera_lock_constraint:
  assumes "generate_starscape rnd seed p s = (Inr True, s')"
  shows "\<exists>k. index_of (\<lambda>ob. object_name ob = ''Starscape'') (objects s') = Some k
    \<and> k < length (objects s')
    \<and> constraints (objects s' ! k) =
        (if camera_lock p
         then [\<lparr>constraint_type = ''COPY_LOCATION'',
                 constraint_target = map_option camera_name (scene_camera s)\<rparr>]
         else [])"
  using assms by (rule generate_constraints)

text \<open>The call with \<^verbatim>\<open>camera_lock\<close> set, on a new session with a perspective camera.\<close>

theorem camera_lock_constraint_witness:
  "fst (generate_starscape counting_rnd nat (props_of 2 True)
          (new_session (Some (camera_of_type ''PERSP'')) 0)) = Inr True
   \<and> (\<exists>k. index_of (\<lambda>ob. object_name ob = ''Starscape'')
          (objects (snd (generate_starscape counting_rnd nat (props_of 2 True)
             (new_session (Some (camera_of_type ''PERSP'')) 0)))) = Some k
       \<and> constraints (objects (snd (generate_starscape counting_rnd nat (props_of 2 True)
             (new_session (Some (camera_of_type ''PERSP'')) 0))) ! k) =
           [\<lparr>constraint_type = ''COPY_LOCATION'', constraint_target = Some ''Camera''\<rparr>])"
proof -
  let ?r = "generate_starscape counting_rnd nat (props_of 2 True)
          (new_session (Some (camera_of_type ''PERSP'')) 0)"
  have t: "fst ?r = Inr True" by (rule new_session_total)
  have "?r = (Inr True, snd ?r)" by (rule pair_eqI[OF t])
  from camera_lock_constraint[OF this] t show ?thesis
    by (auto simp: props_of_def new_session_def camera_of_type_def)
qed


subsection \<open>The template triangle\<close>











subsection \<open>The call made twice\<close>

lemma dec_one: "dec (Suc 0) = ''1''"
  by code_simp

lemma starscape_group_names:
  "map group_name (starscape_groups []) =
     [''Random Intensity'', ''Random Splitter'', ''Random Star Color'']"
  "map group_name
     (starscape_groups [''Random Intensity'', ''Random Splitter'', ''Random Star Color'']) =
     [''Random Intensity.001'', ''Random Splitter.001'', ''Random Star Color.001'']"
  by (simp_all add: starscape_groups_def Let_def unique_name_def numbered_def dec_one
      upt_conv_Cons numeral_2_eq_2 del: dec.simps)

lemma index_of_object_names:
  "index_of (\<lambda>ob. object_name ob = n) xs = index_of (\<lambda>a. a = n) (map object_name xs)"
  by (simp add: index_of_map)

text \<open>
  Claim C1 at a new session with a perspective camera, the call made twice. Both calls
  return \<^verbatim>\<open>True\<close>. The objects and the material are found by their names and used
  again, but \<^verbatim>\<open>node_groups.new\<close> is called whatever the registry holds: the second
  call adds three more node groups, which the host names with the suffix
  \<^verbatim>\<open>.001\<close>.
\<close>

theorem second_call_adds_node_groups:
  "(let run = generate_starscape counting_rnd nat (props_of 2 True);
        s1 = snd (run (new_session (Some (camera_of_type ''PERSP'')) 0));
        s2 = snd (run s1)
    in fst (run (new_session (Some (camera_of_type ''PERSP'')) 0)) = Inr True
       \<and> fst (run s1) = Inr True
       \<and> map group_name (node_groups s1) =
           [''Random Intensity'', ''Random Splitter'', ''Random Star Color'']
       \<and> map group_name (node_groups s2) =
           [''Random Intensity'', ''Random Splitter'', ''Random Star Color'',
            ''Random Intensity.001'', ''Random Splitter.001'', ''Random Star Color.001'']
       \<and> map object_name (objects s2) = [''Starscape'', ''Star_Template'']
       \<and> map material_name (materials s2) = [''Star Shader''])"
proof -
  let ?run = "generate_starscape counting_rnd nat (props_of 2 True)"
  let ?s0 = "new_session (Some (camera_of_type ''PERSP'')) (0 :: nat)"
  let ?s1 = "snd (?run ?s0)"
  let ?s2 = "snd (?run ?s1)"
  have t1: "fst (?run ?s0) = Inr True" by (rule new_session_total)
  have e1: "?run ?s0 = (Inr True, ?s1)" by (rule pair_eqI[OF t1])
  note r1 = generate_registries[OF e1]
  have g1: "node_groups ?s1 = starscape_groups []"
    using r1(1) by (simp add: new_session_def)
  have o1: "map object_name (objects ?s1) = [''Starscape'', ''Star_Template'']"
    using r1(2) by (simp add: new_session_def)
  have m1: "map material_name (materials ?s1) = [''Star Shader'']"
    using r1(3) by (simp add: new_session_def)
  have c1: "scene_camera ?s1 = Some (camera_of_type ''PERSP'')"
    using r1(6) by (simp add: new_session_def)
  have w1: "context_world ?s1 \<noteq> None"
    using r1(7) by (simp add: new_session_def)
  have t2: "fst (?run ?s1) = Inr True"
    by (insert w1, rule generate_total[OF c1 _ r1(4) r1(5)]) (simp_all add: camera_of_type_def)
  have e2: "?run ?s1 = (Inr True, ?s2)" by (rule pair_eqI[OF t2])
  note r2 = generate_registries[OF e2]
  have g2: "map group_name (node_groups ?s2) =
           [''Random Intensity'', ''Random Splitter'', ''Random Star Color'',
            ''Random Intensity.001'', ''Random Splitter.001'', ''Random Star Color.001'']"
    unfolding r2(1) g1 by (simp add: starscape_group_names)
  have o2: "map object_name (objects ?s2) = [''Starscape'', ''Star_Template'']"
    unfolding r2(2) index_of_object_names o1 by simp
  have m2: "map material_name (materials ?s2) = [''Star Shader'']"
    unfolding r2(3) index_of_material_names m1 by simp
  show ?thesis
    unfolding Let_def using t1 t2 g1 g2 o2 m2 by (simp add: starscape_group_names)
qed

end
